theory Spec2Isabelle
  imports Main
begin

section \<open>The VNC server of graphics/vnc/server/vnc_server.c\<close>

text \<open>
  The development follows \<^verbatim>\<open>vnc_server.c\<close>: the session structure and its reset
  (\<^verbatim>\<open>vnc_reset_session\<close>), the connection acceptor (\<^verbatim>\<open>vnc_connect\<close>), the daemon
  (\<^verbatim>\<open>vnc_server\<close>) and the registry lookup (\<^verbatim>\<open>vnc_find_session\<close>).
  C state is passed explicitly; calls into other files of the repository
  (sockets, allocator, negotiation, updater, receiver) are answered by an
  environment that the functions take as an argument.
\<close>

subsection \<open>Data model\<close>

text \<open>
  A pointer to an update structure is the index of that structure in the
  session's \<^verbatim>\<open>updpool\<close> array; \<open>None\<close> is \<^verbatim>\<open>NULL\<close>.
\<close>

type_synonym fbupdate_ptr = "nat option"

text \<open>
  \<^verbatim>\<open>struct vnc_fbupdate_s\<close>: only the link field \<^verbatim>\<open>flink\<close> is touched by this file.
\<close>

record vnc_fbupdate_s =
  flink :: fbupdate_ptr

text \<open>\<^verbatim>\<open>sq_queue_t\<close> of \<^verbatim>\<open>queue.h\<close>: a singly linked queue with head and tail.\<close>

record sq_queue_t =
  head :: fbupdate_ptr
  tail :: fbupdate_ptr

text \<open>
  A \<^verbatim>\<open>struct socket\<close> is either allocated to an open socket or not; a
  zero-filled structure is not.
\<close>

datatype psock = SockClosed | SockOpen

text \<open>
  Modelled from the spec: the enumeration of session states is declared in
  \<^verbatim>\<open>vnc_server.h\<close>, outside this file. The spec orders
  the states \<open>UNINITIALIZED \<rightarrow> INITIALIZED \<rightarrow> CONNECTED \<rightarrow> RUNNING\<close>; the code
  compares them with \<^verbatim>\<open>>=\<close>, so they are numbers here, the zero-filled
  session being \<open>UNINITIALIZED\<close>.
\<close>

definition VNCSERVER_UNINITIALIZED :: nat where
  "VNCSERVER_UNINITIALIZED = 0"

definition VNCSERVER_INITIALIZED :: nat where
  "VNCSERVER_INITIALIZED = 1"

definition VNCSERVER_CONNECTED :: nat where
  "VNCSERVER_CONNECTED = 2"

definition VNCSERVER_RUNNING :: nat where
  "VNCSERVER_RUNNING = 3"

text \<open>
  \<^verbatim>\<open>struct vnc_session_s\<close>, with the fields this file uses. A semaphore is its
  count; the framebuffer pointer is an address, \<open>None\<close> for \<^verbatim>\<open>NULL\<close>.
\<close>

record vnc_session_s =
  listen :: psock
  connect :: psock
  state :: nat
  updpool :: "vnc_fbupdate_s list"
  updfree :: sq_queue_t
  updqueue :: sq_queue_t
  freesem :: int
  queuesem :: int
  fb :: "nat option"

subsection \<open>Helpers of other files\<close>

text \<open>
  Modelled from the spec: the macro \<^verbatim>\<open>sq_init\<close> is defined in \<^verbatim>\<open>queue.h\<close>, outside
  this file. The spec has the reset drain the pending list: the queue is
  left empty, head and tail \<^verbatim>\<open>NULL\<close>.
\<close>

definition sq_init :: "sq_queue_t \<Rightarrow> sq_queue_t" where
  "sq_init q = q\<lparr>head := None, tail := None\<rparr>"

text \<open>
  Modelled from the spec: \<^verbatim>\<open>sem_reset\<close> is defined outside this file. The
  spec has the reset put a synchronizer back to the given initial value, no
  thread being blocked on it.
\<close>

definition sem_reset :: "int \<Rightarrow> int \<Rightarrow> int" where
  "sem_reset sem count = count"

text \<open>
  Modelled from the spec: \<^verbatim>\<open>psock_close\<close> is defined outside this file. The
  spec has it close the socket, whatever state the socket was in.
\<close>

definition psock_close :: "psock \<Rightarrow> psock" where
  "psock_close s = SockClosed"

subsection \<open>\<^verbatim>\<open>vnc_reset_session\<close>\<close>

text \<open>
  The loop of lines 119 to 125, with \<^verbatim>\<open>next\<close> held as an index into the pool:
  \<^verbatim>\<open>for (i = 1; i < CONFIG_VNCSERVER_NUPDATES-1; i++)
    { curr = next; next = &session->updpool[i]; curr->flink = next; }\<close>
  The pool has \<open>N = CONFIG_VNCSERVER_NUPDATES \<ge> 1\<close> elements (the array
  declaration needs a positive size).
\<close>

function link_loop ::
  "nat \<Rightarrow> nat \<Rightarrow> nat \<Rightarrow> vnc_fbupdate_s list \<Rightarrow> nat \<times> vnc_fbupdate_s list" where
  "link_loop N i nxt pool =
     (if i < N - 1 then
        let curr = nxt;
            nxt' = i;
            pool' = pool[curr := (pool ! curr)\<lparr>flink := Some nxt'\<rparr>]
        in link_loop N (Suc i) nxt' pool'
      else (nxt, pool))"
  by pat_completeness auto
termination
  by (relation "measure (\<lambda>(N, i, nxt, pool). N - 1 - i)") auto

declare link_loop.simps [simp del]

definition vnc_reset_session ::
  "nat \<Rightarrow> vnc_session_s \<Rightarrow> nat option \<Rightarrow> vnc_session_s" where
  "vnc_reset_session N session fbp =
     (let s1 = (if state session \<ge> VNCSERVER_CONNECTED
                then session\<lparr>connect := psock_close (connect session),
                             listen := psock_close (listen session)\<rparr>
                else session);
          s2 = s1\<lparr>updqueue := sq_init (updqueue s1)\<rparr>;
          s3 = s2\<lparr>updfree := (updfree s2)\<lparr>head := Some 0, tail := Some (N - 1)\<rparr>\<rparr>;
          (nxt, pool) = link_loop N 1 0 (updpool s3);
          pool' = pool[nxt := (pool ! nxt)\<lparr>flink := None\<rparr>]
      in s3\<lparr>updpool := pool',
             freesem := sem_reset (freesem s3) (int N),
             queuesem := sem_reset (queuesem s3) 0,
             fb := fbp,
             state := VNCSERVER_INITIALIZED\<rparr>)"

text \<open>
  The descriptors reached from a queue head along \<^verbatim>\<open>flink\<close>, in order: \<open>Some\<close>
  of them when the chain ends in \<^verbatim>\<open>NULL\<close> within \<open>fuel\<close> steps and never leaves the
  pool, \<open>None\<close> otherwise.
\<close>

fun sq_chain :: "nat \<Rightarrow> vnc_fbupdate_s list \<Rightarrow> fbupdate_ptr \<Rightarrow> nat list option" where
  "sq_chain fuel pool None = Some []"
| "sq_chain 0 pool (Some p) = None"
| "sq_chain (Suc fuel) pool (Some p) =
     (if p < length pool
      then map_option ((#) p) (sq_chain fuel pool (flink (pool ! p)))
      else None)"

text \<open>
  A queue is a well-formed list of all \<open>N\<close> descriptors of the pool: the chain
  from its head ends, holds each of the \<open>N\<close> descriptors once, and the tail
  field is the last element of the chain.
\<close>

definition sq_holds_all :: "nat \<Rightarrow> vnc_fbupdate_s list \<Rightarrow> sq_queue_t \<Rightarrow> bool" where
  "sq_holds_all N pool q =
     (case sq_chain (Suc N) pool (head q) of
        None \<Rightarrow> False
      | Some xs \<Rightarrow> distinct xs \<and> set xs = {0..<N} \<and> xs \<noteq> [] \<and> tail q = Some (last xs))"

text \<open>The session as \<^verbatim>\<open>kmm_zalloc\<close> returns it: every byte zero.\<close>

definition zero_session :: "nat \<Rightarrow> vnc_session_s" where
  "zero_session N =
     \<lparr>listen = SockClosed, connect = SockClosed, state = 0,
      updpool = replicate N \<lparr>flink = None\<rparr>,
      updfree = \<lparr>head = None, tail = None\<rparr>,
      updqueue = \<lparr>head = None, tail = None\<rparr>,
      freesem = 0, queuesem = 0, fb = None\<rparr>"

subsection \<open>\<^verbatim>\<open>vnc_connect\<close>\<close>

text \<open>
  What a socket call answers: its return value and the value of \<^verbatim>\<open>errno\<close>
  after the call. The four calls of \<^verbatim>\<open>vnc_connect\<close> are answered by the network
  environment; \<^verbatim>\<open>psock_bind\<close> is given the port of the address it binds.
\<close>

record sock_reply =
  r_ret :: int
  r_errno :: int

record net_env =
  psock_socket :: sock_reply
  psock_bind :: "int \<Rightarrow> sock_reply"
  psock_listen :: sock_reply
  psock_accept :: sock_reply

text \<open>\<^verbatim>\<open>OK\<close> is zero, as the comment above \<^verbatim>\<open>vnc_connect\<close> says.\<close>

definition OK :: int where
  "OK = 0"

text \<open>The label \<^verbatim>\<open>errout_with_listener\<close>: close the listener, return \<^verbatim>\<open>ret\<close>.\<close>

definition errout_with_listener :: "int \<Rightarrow> vnc_session_s \<Rightarrow> int \<times> vnc_session_s" where
  "errout_with_listener ret session =
     (ret, session\<lparr>listen := psock_close (listen session)\<rparr>)"

definition vnc_connect :: "net_env \<Rightarrow> vnc_session_s \<Rightarrow> int \<Rightarrow> int \<times> vnc_session_s" where
  "vnc_connect env session port =
     (let r = psock_socket env in
      if r_ret r < 0 then (- r_errno r, session)
      else
        let s1 = session\<lparr>listen := SockOpen\<rparr>;
            r = psock_bind env port
        in if r_ret r < 0 then errout_with_listener (- r_errno r) s1
           else
             let r = psock_listen env
             in if r_ret r < 0 then errout_with_listener (- r_errno r) s1
                else
                  let r = psock_accept env
                  in if r_ret r < 0 then errout_with_listener (- r_errno r) s1
                     else (OK, s1\<lparr>connect := SockOpen, state := VNCSERVER_CONNECTED\<rparr>))"

text \<open>
  A failing socket call leaves a positive error number in \<^verbatim>\<open>errno\<close>, as POSIX
  has it.
\<close>

definition posix_reply :: "sock_reply \<Rightarrow> bool" where
  "posix_reply r = (0 \<le> r_ret r \<or> 0 < r_errno r)"

subsection \<open>The daemon \<^verbatim>\<open>vnc_server\<close>\<close>

text \<open>
  Build-time configuration: the size of the update pool, the number of
  displays, the base of the display ports, and whether \<^verbatim>\<open>DEBUGASSERT\<close> checks
  its condition (\<open>CONFIG_DEBUG\<close> set) or is empty.
\<close>

record vnc_config =
  CONFIG_VNCSERVER_NUPDATES :: nat
  RFB_MAX_DISPLAYS :: int
  RFB_PORT_BASE :: int
  CONFIG_DEBUG :: bool

text \<open>
  Modelled from the spec: the macro \<^verbatim>\<open>RFB_DISPLAY_PORT\<close> is defined outside this
  file; the spec gives the rule port = base + display index.
\<close>

definition RFB_DISPLAY_PORT :: "vnc_config \<Rightarrow> int \<Rightarrow> int" where
  "RFB_DISPLAY_PORT cfg display = RFB_PORT_BASE cfg + display"

text \<open>
  \<^verbatim>\<open>EXIT_FAILURE\<close> and \<^verbatim>\<open>ENOMEM\<close> with the values of the C library headers; the
  theorems below use the names only.
\<close>

definition EXIT_FAILURE :: int where
  "EXIT_FAILURE = 1"

definition ENOMEM :: int where
  "ENOMEM = 12"

text \<open>
  The calls the daemon makes, in program order. The log is kept beside the
  global variables so that the order of calls can be stated.
\<close>

datatype vnc_event =
    EvKmmZalloc "nat option"
  | EvKmmFree
  | EvRegister nat
  | EvResetSession
  | EvFbsemReset
  | EvConnect int
  | EvNegotiate int
  | EvStartUpdater int
  | EvFbsemPost
  | EvReceiver int
  | EvStopUpdater int

text \<open>
  The global variables: the registry \<^verbatim>\<open>g_vnc_sessions\<close> (the address of a
  display's session, \<open>None\<close> for \<^verbatim>\<open>NULL\<close>), the semaphores \<^verbatim>\<open>g_fbsem\<close>, and the
  log of calls.
\<close>

record vnc_world =
  g_vnc_sessions :: "nat \<Rightarrow> nat option"
  g_fbsem :: "nat \<Rightarrow> int"
  calls :: "vnc_event list"

definition emit :: "vnc_event \<Rightarrow> vnc_world \<Rightarrow> vnc_world" where
  "emit e w = w\<lparr>calls := calls w @ [e]\<rparr>"

text \<open>\<^verbatim>\<open>sem_post\<close> adds one to the count of a semaphore.\<close>

definition sem_post :: "int \<Rightarrow> int" where
  "sem_post sem = sem + 1"

text \<open>
  The collaborators of one pass through the loop: the network, and the
  negotiation, updater and receiver of the other files, each of which is
  handed the session and returns a status.
\<close>

record pass_env =
  net :: net_env
  vnc_negotiate :: "vnc_session_s \<Rightarrow> int \<times> vnc_session_s"
  vnc_start_updater :: "vnc_session_s \<Rightarrow> int \<times> vnc_session_s"
  vnc_receiver :: "vnc_session_s \<Rightarrow> int \<times> vnc_session_s"
  vnc_stop_updater :: "vnc_session_s \<Rightarrow> int \<times> vnc_session_s"

text \<open>Lines 283 and 284: reset the session, clear the capture-ready semaphore.\<close>

definition vnc_loop_reset ::
  "vnc_config \<Rightarrow> nat \<Rightarrow> nat option \<Rightarrow> vnc_session_s \<times> vnc_world \<Rightarrow> vnc_session_s \<times> vnc_world" where
  "vnc_loop_reset cfg display fbp st =
     (let (session, w) = st;
          session = vnc_reset_session (CONFIG_VNCSERVER_NUPDATES cfg) session fbp;
          w = emit EvResetSession w;
          w = w\<lparr>g_fbsem := (g_fbsem w)(display := sem_reset (g_fbsem w display) 0)\<rparr>;
          w = emit EvFbsemReset w
      in (session, w))"

text \<open>
  Lines 288 to 339: accept a client and serve it. Every \<^verbatim>\<open>continue\<close> and the end
  of the body hand the state to the next pass.
\<close>

definition vnc_loop_serve ::
  "vnc_config \<Rightarrow> nat \<Rightarrow> pass_env \<Rightarrow> vnc_session_s \<times> vnc_world \<Rightarrow> vnc_session_s \<times> vnc_world" where
  "vnc_loop_serve cfg display env st =
     (let (session, w) = st;
          (ret, session) = vnc_connect (net env) session (RFB_DISPLAY_PORT cfg (int display));
          w = emit (EvConnect ret) w
      in if ret \<ge> 0 then
           let (ret, session) = vnc_negotiate env session;
               w = emit (EvNegotiate ret) w
           in if ret < 0 then (session, w)
              else
                let (ret, session) = vnc_start_updater env session;
                    w = emit (EvStartUpdater ret) w
                in if ret < 0 then (session, w)
                   else
                     let w = w\<lparr>g_fbsem := (g_fbsem w)(display := sem_post (g_fbsem w display))\<rparr>;
                         w = emit EvFbsemPost w;
                         (ret, session) = vnc_receiver env session;
                         w = emit (EvReceiver ret) w;
                         (ret, session) = vnc_stop_updater env session;
                         w = emit (EvStopUpdater ret) w
                     in (session, w)
         else (session, w))"

definition vnc_loop_body ::
  "vnc_config \<Rightarrow> nat \<Rightarrow> nat option \<Rightarrow> pass_env \<Rightarrow> vnc_session_s \<times> vnc_world \<Rightarrow> vnc_session_s \<times> vnc_world" where
  "vnc_loop_body cfg display fbp env st =
     vnc_loop_serve cfg display env (vnc_loop_reset cfg display fbp st)"

text \<open>
  The loop \<^verbatim>\<open>for (; ; )\<close> has no exit. It is run here for as many passes as the
  environment answers: the list holds the collaborators of each pass observed.
\<close>

fun vnc_server_loop ::
  "vnc_config \<Rightarrow> nat \<Rightarrow> nat option \<Rightarrow> pass_env list \<Rightarrow> vnc_session_s \<times> vnc_world \<Rightarrow> vnc_session_s \<times> vnc_world" where
  "vnc_server_loop cfg display fbp [] st = st"
| "vnc_server_loop cfg display fbp (env # envs) st =
     vnc_server_loop cfg display fbp envs (vnc_loop_body cfg display fbp env st)"

text \<open>
  How a call of \<^verbatim>\<open>vnc_server\<close> goes: a debug assertion stops it, it returns a
  value, or it is still in its loop, with the session as it is after the
  passes observed.
\<close>

datatype vnc_outcome = AssertionFailed | Returned int | Serving vnc_session_s

text \<open>
  What the daemon is given besides its arguments: \<^verbatim>\<open>atoi\<close> of the C library, the
  answers of the two calls of \<^verbatim>\<open>kmm_zalloc\<close> (an address, or \<open>None\<close> for \<^verbatim>\<open>NULL\<close>),
  and the collaborators of the passes.
\<close>

record server_env =
  atoi :: "string \<Rightarrow> int"
  alloc_fb :: "nat option"
  alloc_session :: "nat option"
  passes :: "pass_env list"

text \<open>
  Lines 252 to 345 for a display that passed the check: allocate the
  framebuffer and the session, register the session, run the loop.
\<close>

definition vnc_server_display ::
  "vnc_config \<Rightarrow> server_env \<Rightarrow> int \<Rightarrow> vnc_world \<Rightarrow> vnc_outcome \<times> vnc_world" where
  "vnc_server_display cfg env display w =
     (let w = emit (EvKmmZalloc (alloc_fb env)) w
      in case alloc_fb env of
           None \<Rightarrow> (Returned (- ENOMEM), w)
         | Some fbp \<Rightarrow>
             (let w = emit (EvKmmZalloc (alloc_session env)) w
              in (case alloc_session env of
                    None \<Rightarrow> (Returned EXIT_FAILURE, emit EvKmmFree w)
                  | Some sp \<Rightarrow>
                      (let w = w\<lparr>g_vnc_sessions := (g_vnc_sessions w)(nat display := Some sp)\<rparr>;
                           w = emit (EvRegister (nat display)) w;
                           N = CONFIG_VNCSERVER_NUPDATES cfg;
                           session = (zero_session N)\<lparr>freesem := int N, queuesem := 0\<rparr>;
                           (session, w) =
                             vnc_server_loop cfg (nat display) (Some fbp) (passes env) (session, w)
                       in (Serving session, w)))))"

text \<open>
  \<^verbatim>\<open>vnc_server\<close>. The local \<^verbatim>\<open>session\<close> has no value yet when line 231 asserts
  on it: whatever it holds is the argument \<open>session0\<close>. \<^verbatim>\<open>argc\<close> is the length of
  \<^verbatim>\<open>argv\<close>.
\<close>

definition vnc_server ::
  "vnc_config \<Rightarrow> server_env \<Rightarrow> nat option \<Rightarrow> string list \<Rightarrow> vnc_world \<Rightarrow> vnc_outcome \<times> vnc_world" where
  "vnc_server cfg env session0 argv w =
     (if CONFIG_DEBUG cfg \<and> session0 = None then (AssertionFailed, w)
      else if int (length argv) \<noteq> 2 then (Returned EXIT_FAILURE, w)
      else
        let display = atoi env (argv ! 1)
        in if display < 0 \<or> display \<ge> RFB_MAX_DISPLAYS cfg then (Returned EXIT_FAILURE, w)
           else vnc_server_display cfg env display w)"

subsection \<open>\<^verbatim>\<open>vnc_find_session\<close>\<close>

text \<open>
  The lookup either fails the assertion of line 367 or returns a session
  address (\<open>None\<close> for \<^verbatim>\<open>NULL\<close>). It is handed the globals and returns them.
\<close>

datatype vnc_error = DebugAssertion

definition vnc_find_session ::
  "vnc_config \<Rightarrow> int \<Rightarrow> vnc_world \<Rightarrow> (vnc_error + nat option) \<times> vnc_world" where
  "vnc_find_session cfg display w =
     (let session = None
      in if CONFIG_DEBUG cfg \<and> \<not> (display \<ge> 0 \<and> display < RFB_MAX_DISPLAYS cfg)
         then (Inl DebugAssertion, w)
         else
           let session = (if display \<ge> 0 \<and> display < RFB_MAX_DISPLAYS cfg
                          then g_vnc_sessions w (nat display) else session)
           in (Inr session, w))"

subsection \<open>Observing the log\<close>

text \<open>The calls one pass of the loop adds to the log, and those a run of passes adds.\<close>

definition pass_calls ::
  "vnc_config \<Rightarrow> nat \<Rightarrow> nat option \<Rightarrow> pass_env \<Rightarrow> vnc_session_s \<times> vnc_world \<Rightarrow> vnc_event list" where
  "pass_calls cfg display fbp env st =
     drop (length (calls (snd st))) (calls (snd (vnc_loop_body cfg display fbp env st)))"

definition run_calls ::
  "vnc_config \<Rightarrow> nat \<Rightarrow> nat option \<Rightarrow> pass_env list \<Rightarrow> vnc_session_s \<times> vnc_world \<Rightarrow> vnc_event list" where
  "run_calls cfg display fbp envs st =
     drop (length (calls (snd st))) (calls (snd (vnc_server_loop cfg display fbp envs st)))"

subsection \<open>Concrete environments\<close>

text \<open>
  Inputs on which the theorems below are exercised: a configuration with four
  update structures, socket calls that succeed or fail with an error number,
  collaborators that succeed or fail, and the globals of a system in which no
  display has been started.
\<close>

definition cfg4 :: vnc_config where
  "cfg4 = \<lparr>CONFIG_VNCSERVER_NUPDATES = 4, RFB_MAX_DISPLAYS = 100,
           RFB_PORT_BASE = 5900, CONFIG_DEBUG = False\<rparr>"

definition reply_ok :: sock_reply where
  "reply_ok = \<lparr>r_ret = 0, r_errno = 0\<rparr>"

definition reply_fail :: "int \<Rightarrow> sock_reply" where
  "reply_fail e = \<lparr>r_ret = - 1, r_errno = e\<rparr>"

definition net_ok :: net_env where
  "net_ok = \<lparr>psock_socket = reply_ok, psock_bind = (\<lambda>port. reply_ok),
             psock_listen = reply_ok, psock_accept = reply_ok\<rparr>"

definition net_bind_fails :: net_env where
  "net_bind_fails = net_ok\<lparr>psock_bind := (\<lambda>port. reply_fail 98)\<rparr>"

definition net_accept_fails :: net_env where
  "net_accept_fails = net_ok\<lparr>psock_accept := reply_fail 4\<rparr>"

definition collab_ok :: "vnc_session_s \<Rightarrow> int \<times> vnc_session_s" where
  "collab_ok session = (OK, session)"

definition collab_fail :: "vnc_session_s \<Rightarrow> int \<times> vnc_session_s" where
  "collab_fail session = (- 5, session)"

definition updater_started :: "vnc_session_s \<Rightarrow> int \<times> vnc_session_s" where
  "updater_started session = (OK, session\<lparr>state := VNCSERVER_RUNNING\<rparr>)"

definition pass_served :: pass_env where
  "pass_served = \<lparr>net = net_ok, vnc_negotiate = collab_ok, vnc_start_updater = updater_started,
                  vnc_receiver = collab_fail, vnc_stop_updater = collab_ok\<rparr>"

definition pass_negotiate_fails :: pass_env where
  "pass_negotiate_fails = pass_served\<lparr>vnc_negotiate := collab_fail\<rparr>"

definition pass_updater_fails :: pass_env where
  "pass_updater_fails = pass_served\<lparr>vnc_start_updater := collab_fail\<rparr>"

definition pass_accept_fails :: pass_env where
  "pass_accept_fails = pass_served\<lparr>net := net_accept_fails\<rparr>"

definition world0 :: vnc_world where
  "world0 = \<lparr>g_vnc_sessions = (\<lambda>display. None), g_fbsem = (\<lambda>display. 0), calls = []\<rparr>"

text \<open>
  Modelled from the spec: \<^verbatim>\<open>atoi\<close> belongs to the C library and is defined outside
  this file. The spec speaks of the display index only, and the source expects
  a number in ASCII form; the conversion is the one of the C standard, for
  values that fit an \<^verbatim>\<open>int\<close>: white space, an optional sign, then decimal digits
  up to the first other character.
\<close>

definition isspace :: "char \<Rightarrow> bool" where
  "isspace c = (c \<in> set [CHR '' '', CHR 0x09, CHR 0x0A, CHR 0x0B, CHR 0x0C, CHR 0x0D])"

definition isdigit :: "char \<Rightarrow> bool" where
  "isdigit c = (c \<in> set ''0123456789'')"

fun atoi_digits :: "int \<Rightarrow> string \<Rightarrow> int" where
  "atoi_digits acc [] = acc"
| "atoi_digits acc (c # cs) =
     (if isdigit c then atoi_digits (acc * 10 + (of_char c - 48)) cs else acc)"

definition atoi_c :: "string \<Rightarrow> int" where
  "atoi_c str =
     (case dropWhile isspace str of
        [] \<Rightarrow> 0
      | c # cs \<Rightarrow>
          if c = CHR ''-'' then - atoi_digits 0 cs
          else if c = CHR ''+'' then atoi_digits 0 cs
          else atoi_digits 0 (c # cs))"

text \<open>
  Two readings of a string that is not a number. It has no leading digit
  when, after white space and an optional sign, it does not go on with a
  decimal digit. It is a numeric string when it is an optional sign followed
  by one or more decimal digits and nothing else.
\<close>

definition no_leading_digit :: "string \<Rightarrow> bool" where
  "no_leading_digit str =
     (case dropWhile isspace str of
        [] \<Rightarrow> True
      | c # cs \<Rightarrow>
          if c = CHR ''-'' \<or> c = CHR ''+''
          then (case cs of [] \<Rightarrow> True | c' # cs' \<Rightarrow> \<not> isdigit c')
          else \<not> isdigit c)"

definition numeric_string :: "string \<Rightarrow> bool" where
  "numeric_string str =
     (case str of
        [] \<Rightarrow> False
      | c # cs \<Rightarrow>
          if c = CHR ''-'' \<or> c = CHR ''+'' then cs \<noteq> [] \<and> list_all isdigit cs
          else list_all isdigit (c # cs))"

definition env_one_pass :: server_env where
  "env_one_pass = \<lparr>atoi = atoi_c, alloc_fb = Some 4096, alloc_session = Some 8192,
                    passes = [pass_served]\<rparr>"

text \<open>
  A network in which only display \<open>0\<close>'s port \<open>5900\<close> can be bound, and a daemon
  environment of two passes over it.
\<close>

definition net_port_5900 :: net_env where
  "net_port_5900 =
     net_ok\<lparr>psock_bind := (\<lambda>port. if port = 5900 then reply_ok else reply_fail 98)\<rparr>"

definition env_display0 :: server_env where
  "env_display0 = \<lparr>atoi = atoi_c, alloc_fb = Some 4096, alloc_session = Some 8192,
                    passes = [pass_served\<lparr>net := net_port_5900\<rparr>, pass_negotiate_fails]\<rparr>"

section \<open>Properties\<close>

subsection \<open>The free list after a reset\<close>

text \<open>
  The loop links \<open>updpool[i - 1]\<close> to \<open>updpool[i]\<close> for \<open>i\<close> from its start up to
  \<open>N - 2\<close>, stops with \<^verbatim>\<open>next\<close> at \<open>updpool[N - 2]\<close>, and touches nothing else.
\<close>

lemma link_loop_spec:
  "1 \<le> i \<Longrightarrow> i \<le> N - 1 \<Longrightarrow> length pool = N \<Longrightarrow> n0 = i - 1 \<Longrightarrow>
   link_loop N i n0 pool = (nxt, pool') \<Longrightarrow>
   nxt = N - 2 \<and> length pool' = N \<and>
   (\<forall>k < N. flink (pool' ! k) =
      (if i - 1 \<le> k \<and> k < N - 2 then Some (Suc k) else flink (pool ! k)))"
proof (induction N i n0 pool arbitrary: nxt pool' rule: link_loop.induct)
  case (1 N i n0 pool)
  show ?case
  proof (cases "i < N - 1")
    case True
    let ?p = "pool[n0 := (pool ! n0)\<lparr>flink := Some i\<rparr>]"
    from True "1.prems" have run: "link_loop N (Suc i) i ?p = (nxt, pool')"
      by (simp add: Let_def link_loop.simps[of N i])
    have "nxt = N - 2 \<and> length pool' = N \<and>
      (\<forall>k < N. flink (pool' ! k) =
        (if Suc i - 1 \<le> k \<and> k < N - 2 then Some (Suc k) else flink (?p ! k)))"
      using "1.IH"[OF True refl refl refl _ _ _ _ run] True "1.prems" by simp
    then show ?thesis using "1.prems" True
      by (auto simp: nth_list_update)
  next
    case False
    with "1.prems" show ?thesis by (auto simp: link_loop.simps[of N i])
  qed
qed

text \<open>A run of descriptors each linked to its successor, ending in \<^verbatim>\<open>NULL\<close>.\<close>

lemma sq_chain_run:
  "j \<le> m \<Longrightarrow> m < length pool \<Longrightarrow> m - j < fuel \<Longrightarrow>
   \<forall>k. j \<le> k \<and> k < m \<longrightarrow> flink (pool ! k) = Some (Suc k) \<Longrightarrow>
   flink (pool ! m) = None \<Longrightarrow>
   sq_chain fuel pool (Some j) = Some [j..<Suc m]"
proof (induction fuel arbitrary: j)
  case 0
  then show ?case by simp
next
  case (Suc fuel)
  show ?case
  proof (cases "j = m")
    case True
    with Suc.prems show ?thesis by simp
  next
    case False
    with Suc.prems have "sq_chain fuel pool (Some (Suc j)) = Some [Suc j..<Suc m]"
      by (intro Suc.IH) auto
    with Suc.prems False show ?thesis
      by (simp add: upt_conv_Cons)
  qed
qed

text \<open>
  For a pool of two or more: after the reset the chain from the head of the
  free list is \<open>updpool[0], \<dots>, updpool[N - 2]\<close>; the tail field is
  \<open>updpool[N - 1]\<close>, whose link is left as it was; the counters are \<open>N\<close> and \<open>0\<close>.
\<close>

lemma vnc_reset_session_freelist:
  fixes fbp :: "nat option"
  assumes N: "2 \<le> N" and len: "length (updpool s) = N"
  defines "s' \<equiv> vnc_reset_session N s fbp"
  shows "sq_chain (Suc N) (updpool s') (head (updfree s')) = Some [0..<N - 1]"
    and "tail (updfree s') = Some (N - 1)"
    and "flink (updpool s' ! (N - 1)) = flink (updpool s ! (N - 1))"
    and "freesem s' = int N" and "queuesem s' = 0"
    and "head (updqueue s') = None" and "state s' = VNCSERVER_INITIALIZED"
proof -
  obtain nxt pool where ll: "link_loop N 1 0 (updpool s) = (nxt, pool)"
    by (cases "link_loop N 1 0 (updpool s)")
  from link_loop_spec[of 1 N "updpool s" 0 nxt pool] N len ll
  have nxt: "nxt = N - 2" and lp: "length pool = N"
    and fl: "\<forall>k < N. flink (pool ! k) = (if k < N - 2 then Some (Suc k) else flink (updpool s ! k))"
    by auto
  let ?pool = "pool[nxt := (pool ! nxt)\<lparr>flink := None\<rparr>]"
  have up: "updpool s' = ?pool"
    using ll by (simp add: s'_def vnc_reset_session_def Let_def)
  have hd: "head (updfree s') = Some 0"
    by (simp add: s'_def vnc_reset_session_def Let_def split: prod.splits)
  have "sq_chain (Suc N) ?pool (Some 0) = Some [0..<Suc (N - 2)]"
    using N lp fl nxt by (intro sq_chain_run) (auto simp: nth_list_update)
  moreover have "Suc (N - 2) = N - 1" using N by simp
  ultimately show "sq_chain (Suc N) (updpool s') (head (updfree s')) = Some [0..<N - 1]"
    using up hd by simp
  show "tail (updfree s') = Some (N - 1)"
    by (simp add: s'_def vnc_reset_session_def Let_def split: prod.splits)
  show "flink (updpool s' ! (N - 1)) = flink (updpool s ! (N - 1))"
    using up N lp fl nxt by (auto simp: nth_list_update)
  show "freesem s' = int N" "queuesem s' = 0" "head (updqueue s') = None"
     "state s' = VNCSERVER_INITIALIZED"
    by (simp_all add: s'_def vnc_reset_session_def Let_def sem_reset_def sq_init_def split: prod.splits)
qed

text \<open>With a single descriptor the free list is as it should be.\<close>

lemma vnc_reset_session_single:
  "length (updpool s) = 1 \<Longrightarrow>
   sq_holds_all 1 (updpool (vnc_reset_session 1 s fbp)) (updfree (vnc_reset_session 1 s fbp))"
proof -
  assume len: "length (updpool s) = 1"
  then obtain a where a: "updpool s = [a]"
    by (cases "updpool s") auto
  have ll: "link_loop (Suc 0) (Suc 0) 0 [a] = (0, [a])"
    by (subst link_loop.simps) simp
  show ?thesis
    by (simp add: vnc_reset_session_def a ll sq_holds_all_def Let_def)
qed

text \<open>
  C1. After \<^verbatim>\<open>vnc_reset_session\<close> the pending list should be empty, the counters
  \<open>N\<close> and \<open>0\<close>, and the free list a well-formed list of all \<open>N\<close> descriptors
  with the tail field at its last element. The code sets the counters and
  empties the pending list, but its loop bound \<^verbatim>\<open>i < N-1\<close> never links the last
  descriptor: with \<open>N = 2\<close>, from any earlier state of the session, the chain
  from the head holds \<open>updpool[0]\<close> alone while the tail field is \<open>updpool[1]\<close>
  and the free counter is \<open>2\<close>.
\<close>

theorem vnc_reset_session_misses_last:
  "sq_chain 3 (updpool (vnc_reset_session 2 (s\<lparr>updpool := [a, b]\<rparr>) fbp))
       (head (updfree (vnc_reset_session 2 (s\<lparr>updpool := [a, b]\<rparr>) fbp))) = Some [0]
   \<and> tail (updfree (vnc_reset_session 2 (s\<lparr>updpool := [a, b]\<rparr>) fbp)) = Some 1
   \<and> freesem (vnc_reset_session 2 (s\<lparr>updpool := [a, b]\<rparr>) fbp) = 2
   \<and> queuesem (vnc_reset_session 2 (s\<lparr>updpool := [a, b]\<rparr>) fbp) = 0
   \<and> head (updqueue (vnc_reset_session 2 (s\<lparr>updpool := [a, b]\<rparr>) fbp)) = None
   \<and> \<not> sq_holds_all 2 (updpool (vnc_reset_session 2 (s\<lparr>updpool := [a, b]\<rparr>) fbp))
         (updfree (vnc_reset_session 2 (s\<lparr>updpool := [a, b]\<rparr>) fbp))"
proof -
  have ll: "link_loop 2 (Suc 0) 0 [a, b] = (0, [a, b])"
    by (subst link_loop.simps) simp
  have r: "vnc_reset_session 2 (s\<lparr>updpool := [a, b]\<rparr>) fbp =
    (if VNCSERVER_CONNECTED \<le> state s
     then s\<lparr>connect := SockClosed, listen := SockClosed\<rparr> else s)
    \<lparr>updqueue := sq_init (updqueue s),
     updfree := (updfree s)\<lparr>head := Some 0, tail := Some 1\<rparr>,
     updpool := [a\<lparr>flink := None\<rparr>, b],
     freesem := 2, queuesem := 0, fb := fbp, state := VNCSERVER_INITIALIZED\<rparr>"
    by (simp add: vnc_reset_session_def ll sem_reset_def psock_close_def)
  show ?thesis
    unfolding r
    by (simp add: sq_holds_all_def sq_init_def numeral_3_eq_3)
qed

subsection \<open>The acceptor\<close>

text \<open>
  C2, as stated: after a successful \<^verbatim>\<open>vnc_connect\<close> the listening socket would be
  closed. With every socket call succeeding, \<^verbatim>\<open>vnc_connect\<close> returns \<open>OK\<close> and
  the listening socket is not closed.
\<close>

theorem vnc_connect_leaves_listener_open:
  "fst (vnc_connect net_ok (zero_session 4) 5900) = OK \<and>
   listen (snd (vnc_connect net_ok (zero_session 4) 5900)) \<noteq> SockClosed"
  by (simp add: vnc_connect_def net_ok_def reply_ok_def zero_session_def OK_def)

text \<open>
  C2, amended: when all four socket calls succeed, \<^verbatim>\<open>vnc_connect\<close> returns \<open>OK\<close>
  with both sockets open and the state \<open>VNCSERVER_CONNECTED\<close>; the listening
  socket stays open on return and is closed, with the connected socket, by
  the \<^verbatim>\<open>vnc_reset_session\<close> that follows.
\<close>

theorem vnc_connect_success:
  assumes "0 \<le> r_ret (psock_socket env)" and "0 \<le> r_ret (psock_bind env port)"
    and "0 \<le> r_ret (psock_listen env)" and "0 \<le> r_ret (psock_accept env)"
  shows "vnc_connect env session port =
           (OK, session\<lparr>listen := SockOpen, connect := SockOpen, state := VNCSERVER_CONNECTED\<rparr>)
         \<and> listen (snd (vnc_connect env session port)) = SockOpen
         \<and> listen (vnc_reset_session N (snd (vnc_connect env session port)) fbp) = SockClosed
         \<and> connect (vnc_reset_session N (snd (vnc_connect env session port)) fbp) = SockClosed"
proof -
  have c: "vnc_connect env session port =
           (OK, session\<lparr>listen := SockOpen, connect := SockOpen, state := VNCSERVER_CONNECTED\<rparr>)"
    using assms by (simp add: vnc_connect_def Let_def)
  show ?thesis
    unfolding c
    by (simp add: vnc_reset_session_def psock_close_def Let_def split: prod.splits)
qed

theorem vnc_connect_success_witness:
  "0 \<le> r_ret (psock_socket net_ok) \<and> 0 \<le> r_ret (psock_bind net_ok 5900)
   \<and> 0 \<le> r_ret (psock_listen net_ok) \<and> 0 \<le> r_ret (psock_accept net_ok)
   \<and> listen (snd (vnc_connect net_ok (zero_session 4) 5900)) = SockOpen
   \<and> listen (vnc_reset_session 4 (snd (vnc_connect net_ok (zero_session 4) 5900)) None) = SockClosed"
proof -
  have h: "0 \<le> r_ret (psock_socket net_ok)" "0 \<le> r_ret (psock_bind net_ok 5900)"
    "0 \<le> r_ret (psock_listen net_ok)" "0 \<le> r_ret (psock_accept net_ok)"
    by (simp_all add: net_ok_def reply_ok_def)
  from vnc_connect_success [OF h, of "zero_session 4" 4 None] h show ?thesis
    by blast
qed

text \<open>
  C6. Once the listening socket exists: if \<^verbatim>\<open>psock_bind\<close>, \<^verbatim>\<open>psock_listen\<close> or
  \<^verbatim>\<open>psock_accept\<close> fails, \<^verbatim>\<open>vnc_connect\<close> returns the negated \<^verbatim>\<open>errno\<close> of the first
  call that failed, a negative value, with the listening socket closed and
  the state field as it was; if all three succeed it returns \<open>OK\<close> and the state
  is \<open>VNCSERVER_CONNECTED\<close>.
\<close>

theorem vnc_connect_outcomes:
  assumes "0 \<le> r_ret (psock_socket env)"
    and "posix_reply (psock_bind env port)"
    and "posix_reply (psock_listen env)"
    and "posix_reply (psock_accept env)"
  shows "(r_ret (psock_bind env port) < 0 \<or> r_ret (psock_listen env) < 0
            \<or> r_ret (psock_accept env) < 0 \<longrightarrow>
          fst (vnc_connect env session port) < 0
          \<and> fst (vnc_connect env session port) =
              (if r_ret (psock_bind env port) < 0 then - r_errno (psock_bind env port)
               else if r_ret (psock_listen env) < 0 then - r_errno (psock_listen env)
               else - r_errno (psock_accept env))
          \<and> listen (snd (vnc_connect env session port)) = SockClosed
          \<and> state (snd (vnc_connect env session port)) = state session)
       \<and> (0 \<le> r_ret (psock_bind env port) \<and> 0 \<le> r_ret (psock_listen env)
            \<and> 0 \<le> r_ret (psock_accept env) \<longrightarrow>
          fst (vnc_connect env session port) = OK
          \<and> state (snd (vnc_connect env session port)) = VNCSERVER_CONNECTED)"
  using assms
  by (auto simp: vnc_connect_def errout_with_listener_def psock_close_def posix_reply_def Let_def)

theorem vnc_connect_outcomes_witness:
  "0 \<le> r_ret (psock_socket net_bind_fails)
   \<and> posix_reply (psock_bind net_bind_fails 5900)
   \<and> posix_reply (psock_listen net_bind_fails)
   \<and> posix_reply (psock_accept net_bind_fails)
   \<and> r_ret (psock_bind net_bind_fails 5900) < 0
   \<and> fst (vnc_connect net_bind_fails (zero_session 4) 5900) = - 98
   \<and> listen (snd (vnc_connect net_bind_fails (zero_session 4) 5900)) = SockClosed
   \<and> state (snd (vnc_connect net_bind_fails (zero_session 4) 5900)) = state (zero_session 4)"
proof -
  have h: "0 \<le> r_ret (psock_socket net_bind_fails)"
    "posix_reply (psock_bind net_bind_fails 5900)"
    "posix_reply (psock_listen net_bind_fails)"
    "posix_reply (psock_accept net_bind_fails)"
    by (simp_all add: net_bind_fails_def net_ok_def reply_ok_def reply_fail_def posix_reply_def)
  have f: "r_ret (psock_bind net_bind_fails 5900) < 0"
    "r_errno (psock_bind net_bind_fails 5900) = 98"
    by (simp_all add: net_bind_fails_def net_ok_def reply_fail_def)
  from vnc_connect_outcomes [OF h, of "zero_session 4"] h f show ?thesis
    by simp
qed

subsection \<open>One pass of the loop\<close>

text \<open>
  A pass ends in one of four ways: the accept failed, the negotiation failed,
  the updater did not start, or the client was served. Each way fixes the
  calls made and the value of the capture-ready semaphore at the end.
\<close>

lemma vnc_loop_body_cases:
  obtains
    (accept_failed) r1 where "r1 < 0"
      "snd (vnc_loop_body cfg d fbp env (session, w)) =
         w\<lparr>g_fbsem := (g_fbsem w)(d := 0),
           calls := calls w @ [EvResetSession, EvFbsemReset, EvConnect r1]\<rparr>"
  | (negotiate_failed) r1 r2 where "0 \<le> r1" "r2 < 0"
      "snd (vnc_loop_body cfg d fbp env (session, w)) =
         w\<lparr>g_fbsem := (g_fbsem w)(d := 0),
           calls := calls w @ [EvResetSession, EvFbsemReset, EvConnect r1, EvNegotiate r2]\<rparr>"
  | (updater_failed) r1 r2 r3 where "0 \<le> r1" "0 \<le> r2" "r3 < 0"
      "snd (vnc_loop_body cfg d fbp env (session, w)) =
         w\<lparr>g_fbsem := (g_fbsem w)(d := 0),
           calls := calls w @ [EvResetSession, EvFbsemReset, EvConnect r1, EvNegotiate r2,
                               EvStartUpdater r3]\<rparr>"
  | (served) r1 r2 r3 r4 r5 where "0 \<le> r1" "0 \<le> r2" "0 \<le> r3"
      "snd (vnc_loop_body cfg d fbp env (session, w)) =
         w\<lparr>g_fbsem := (g_fbsem w)(d := 1),
           calls := calls w @ [EvResetSession, EvFbsemReset, EvConnect r1, EvNegotiate r2,
                               EvStartUpdater r3, EvFbsemPost, EvReceiver r4, EvStopUpdater r5]\<rparr>"
proof -
  define s1 where "s1 = vnc_reset_session (CONFIG_VNCSERVER_NUPDATES cfg) session fbp"
  obtain r1 s2 where c: "vnc_connect (net env) s1 (RFB_DISPLAY_PORT cfg (int d)) = (r1, s2)"
    by fastforce
  obtain r2 s3 where n: "vnc_negotiate env s2 = (r2, s3)"
    by fastforce
  obtain r3 s4 where u: "vnc_start_updater env s3 = (r3, s4)"
    by fastforce
  obtain r4 s5 where r: "vnc_receiver env s4 = (r4, s5)"
    by fastforce
  obtain r5 s6 where t: "vnc_stop_updater env s5 = (r5, s6)"
    by fastforce
  note defs = vnc_loop_body_def vnc_loop_reset_def vnc_loop_serve_def emit_def
    sem_reset_def sem_post_def s1_def[symmetric]
  consider "r1 < 0" | "0 \<le> r1" "r2 < 0" | "0 \<le> r1" "0 \<le> r2" "r3 < 0"
    | "0 \<le> r1" "0 \<le> r2" "0 \<le> r3"
    by linarith
  then show thesis
  proof cases
    case 1
    then show thesis
      by (intro accept_failed[of r1]) (simp_all add: defs c)
  next
    case 2
    then show thesis
      by (intro negotiate_failed[of r1 r2]) (simp_all add: defs c n)
  next
    case 3
    then show thesis
      by (intro updater_failed[of r1 r2 r3]) (simp_all add: defs c n u)
  next
    case 4
    then show thesis
      by (intro served[of r1 r2 r3 r4 r5]) (simp_all add: defs c n u r t)
  qed
qed


text \<open>The same four ways, read off the calls of the pass.\<close>

lemma pass_calls_cases:
  obtains
    (accept_failed) r1 where "r1 < 0"
      "pass_calls cfg d fbp env st = [EvResetSession, EvFbsemReset, EvConnect r1]"
      "g_fbsem (snd (vnc_loop_body cfg d fbp env st)) d = 0"
  | (negotiate_failed) r1 r2 where "0 \<le> r1" "r2 < 0"
      "pass_calls cfg d fbp env st = [EvResetSession, EvFbsemReset, EvConnect r1, EvNegotiate r2]"
      "g_fbsem (snd (vnc_loop_body cfg d fbp env st)) d = 0"
  | (updater_failed) r1 r2 r3 where "0 \<le> r1" "0 \<le> r2" "r3 < 0"
      "pass_calls cfg d fbp env st =
         [EvResetSession, EvFbsemReset, EvConnect r1, EvNegotiate r2, EvStartUpdater r3]"
      "g_fbsem (snd (vnc_loop_body cfg d fbp env st)) d = 0"
  | (served) r1 r2 r3 r4 r5 where "0 \<le> r1" "0 \<le> r2" "0 \<le> r3"
      "pass_calls cfg d fbp env st =
         [EvResetSession, EvFbsemReset, EvConnect r1, EvNegotiate r2, EvStartUpdater r3,
          EvFbsemPost, EvReceiver r4, EvStopUpdater r5]"
      "g_fbsem (snd (vnc_loop_body cfg d fbp env st)) d = 1"
proof -
  obtain session w where st: "st = (session, w)"
    by (cases st)
  show thesis
  proof (cases rule: vnc_loop_body_cases[where cfg=cfg and d=d and fbp=fbp and env=env and session=session and w=w])
    case (accept_failed r1)
    then show thesis
      by (intro that(1)[of r1]) (simp_all add: pass_calls_def st)
  next
    case (negotiate_failed r1 r2)
    then show thesis
      by (intro that(2)[of r1 r2]) (simp_all add: pass_calls_def st)
  next
    case (updater_failed r1 r2 r3)
    then show thesis
      by (intro that(3)[of r1 r2 r3]) (simp_all add: pass_calls_def st)
  next
    case (served r1 r2 r3 r4 r5)
    then show thesis
      by (intro that(4)[of r1 r2 r3 r4 r5]) (simp_all add: pass_calls_def st)
  qed
qed

text \<open>A pass only appends to the log and leaves the registry alone.\<close>

lemma vnc_loop_body_calls:
  "calls (snd (vnc_loop_body cfg d fbp env st)) = calls (snd st) @ pass_calls cfg d fbp env st"
proof -
  obtain session w where st: "st = (session, w)"
    by (cases st)
  show ?thesis
    by (cases rule: vnc_loop_body_cases[where cfg=cfg and d=d and fbp=fbp and env=env and session=session and w=w])
       (simp_all add: pass_calls_def st)
qed

lemma vnc_loop_body_registry:
  "g_vnc_sessions (snd (vnc_loop_body cfg d fbp env st)) = g_vnc_sessions (snd st)"
proof -
  obtain session w where st: "st = (session, w)"
    by (cases st)
  show ?thesis
    by (cases rule: vnc_loop_body_cases[where cfg=cfg and d=d and fbp=fbp and env=env and session=session and w=w]) (simp_all add: st)
qed

lemma vnc_loop_reset_fbsem:
  "g_fbsem (snd (vnc_loop_reset cfg d fbp st)) d = 0"
  by (cases st) (simp add: vnc_loop_reset_def emit_def sem_reset_def)

text \<open>
  C3. In every pass of the loop, from any state and with any collaborators:
  the capture-ready semaphore \<^verbatim>\<open>g_fbsem[display]\<close> is reset to \<open>0\<close> before the one
  call of \<^verbatim>\<open>vnc_connect\<close>; it is posted at most once, and then directly after a
  call of \<^verbatim>\<open>vnc_start_updater\<close> that returned success; and in a pass where
  \<^verbatim>\<open>vnc_connect\<close>, \<^verbatim>\<open>vnc_negotiate\<close> or \<^verbatim>\<open>vnc_start_updater\<close> returned a negative
  value it is not posted and is still \<open>0\<close> at the end of the pass.
\<close>

theorem vnc_loop_body_capture_ready:
  "(\<exists>r rest. pass_calls cfg d fbp env st = EvResetSession # EvFbsemReset # EvConnect r # rest
       \<and> EvFbsemReset \<notin> set rest \<and> (\<forall>r'. EvConnect r' \<notin> set rest))
   \<and> g_fbsem (snd (vnc_loop_reset cfg d fbp st)) d = 0
   \<and> (EvFbsemPost \<in> set (pass_calls cfg d fbp env st) \<longrightarrow>
        (\<exists>pre r post. pass_calls cfg d fbp env st = pre @ EvStartUpdater r # EvFbsemPost # post
           \<and> 0 \<le> r \<and> EvFbsemPost \<notin> set pre \<and> EvFbsemPost \<notin> set post))
   \<and> ((\<exists>r<0. EvConnect r \<in> set (pass_calls cfg d fbp env st)
               \<or> EvNegotiate r \<in> set (pass_calls cfg d fbp env st)
               \<or> EvStartUpdater r \<in> set (pass_calls cfg d fbp env st)) \<longrightarrow>
        EvFbsemPost \<notin> set (pass_calls cfg d fbp env st)
        \<and> g_fbsem (snd (vnc_loop_body cfg d fbp env st)) d = 0)"
proof (cases rule: pass_calls_cases[where cfg=cfg and d=d and fbp=fbp and env=env and st=st])
  case (accept_failed r1)
  then show ?thesis
    by (simp add: vnc_loop_reset_fbsem)
next
  case (negotiate_failed r1 r2)
  then show ?thesis
    by (simp add: vnc_loop_reset_fbsem)
next
  case (updater_failed r1 r2 r3)
  then show ?thesis
    by (simp add: vnc_loop_reset_fbsem)
next
  case (served r1 r2 r3 r4 r5)
  have "pass_calls cfg d fbp env st =
      [EvResetSession, EvFbsemReset, EvConnect r1, EvNegotiate r2]
      @ EvStartUpdater r3 # EvFbsemPost # [EvReceiver r4, EvStopUpdater r5]"
    using served by simp
  then have "\<exists>pre r post. pass_calls cfg d fbp env st = pre @ EvStartUpdater r # EvFbsemPost # post
           \<and> 0 \<le> r \<and> EvFbsemPost \<notin> set pre \<and> EvFbsemPost \<notin> set post"
    using served(3) by (intro exI conjI) (assumption, simp_all)
  moreover have "\<not> (\<exists>r<0. EvConnect r \<in> set (pass_calls cfg d fbp env st)
               \<or> EvNegotiate r \<in> set (pass_calls cfg d fbp env st)
               \<or> EvStartUpdater r \<in> set (pass_calls cfg d fbp env st))"
    using served by auto
  moreover have "\<exists>r rest. pass_calls cfg d fbp env st = EvResetSession # EvFbsemReset # EvConnect r # rest
       \<and> EvFbsemReset \<notin> set rest \<and> (\<forall>r'. EvConnect r' \<notin> set rest)"
    using served by simp
  ultimately show ?thesis
    using vnc_loop_reset_fbsem[of cfg d fbp st] by blast
qed


theorem vnc_loop_body_capture_ready_witness:
  "EvFbsemPost \<in> set (pass_calls cfg4 0 (Some 4096) pass_served (zero_session 4, world0))
   \<and> (\<exists>pre r post. pass_calls cfg4 0 (Some 4096) pass_served (zero_session 4, world0)
          = pre @ EvStartUpdater r # EvFbsemPost # post \<and> 0 \<le> r \<and> EvFbsemPost \<notin> set pre)
   \<and> (\<exists>r<0. EvStartUpdater r
          \<in> set (pass_calls cfg4 0 (Some 4096) pass_updater_fails (zero_session 4, world0)))
   \<and> EvFbsemPost \<notin> set (pass_calls cfg4 0 (Some 4096) pass_updater_fails (zero_session 4, world0))
   \<and> g_fbsem (snd (vnc_loop_body cfg4 0 (Some 4096) pass_updater_fails (zero_session 4, world0))) 0 = 0"
proof -
  have served: "pass_calls cfg4 0 (Some 4096) pass_served (zero_session 4, world0) =
      [EvResetSession, EvFbsemReset, EvConnect 0, EvNegotiate 0, EvStartUpdater 0,
       EvFbsemPost, EvReceiver (- 5), EvStopUpdater 0]"
    by code_simp
  have failed: "pass_calls cfg4 0 (Some 4096) pass_updater_fails (zero_session 4, world0) =
      [EvResetSession, EvFbsemReset, EvConnect 0, EvNegotiate 0, EvStartUpdater (- 5)]"
    by code_simp
  have p: "EvFbsemPost \<in> set (pass_calls cfg4 0 (Some 4096) pass_served (zero_session 4, world0))"
    by (simp add: served)
  have f: "\<exists>r<0. EvStartUpdater r
          \<in> set (pass_calls cfg4 0 (Some 4096) pass_updater_fails (zero_session 4, world0))"
    unfolding failed by (intro exI[of _ "- 5"]) simp
  from vnc_loop_body_capture_ready
         [where cfg = cfg4 and d = 0 and fbp = "Some 4096" and env = pass_served
            and st = "(zero_session 4, world0)"]
       vnc_loop_body_capture_ready
         [where cfg = cfg4 and d = 0 and fbp = "Some 4096" and env = pass_updater_fails
            and st = "(zero_session 4, world0)"]
       p f
  show ?thesis by blast
qed

subsection \<open>Runs of the loop\<close>

text \<open>The log of a run is the log of its first pass followed by that of the rest.\<close>

lemma vnc_server_loop_extends:
  "\<exists>t. calls (snd (vnc_server_loop cfg d fbp envs st)) = calls (snd st) @ t"
proof (induction envs arbitrary: st)
  case Nil
  then show ?case by simp
next
  case (Cons env envs)
  from Cons.IH[of "vnc_loop_body cfg d fbp env st"] obtain t
    where "calls (snd (vnc_server_loop cfg d fbp envs (vnc_loop_body cfg d fbp env st)))
           = calls (snd (vnc_loop_body cfg d fbp env st)) @ t"
    by blast
  then have "calls (snd (vnc_server_loop cfg d fbp (env # envs) st))
           = calls (snd st) @ (pass_calls cfg d fbp env st @ t)"
    by (simp add: vnc_loop_body_calls)
  then show ?case by blast
qed

lemma vnc_server_loop_calls:
  "calls (snd (vnc_server_loop cfg d fbp envs st)) = calls (snd st) @ run_calls cfg d fbp envs st"
proof -
  obtain t where "calls (snd (vnc_server_loop cfg d fbp envs st)) = calls (snd st) @ t"
    using vnc_server_loop_extends by blast
  then show ?thesis
    by (simp add: run_calls_def)
qed

lemma run_calls_Nil: "run_calls cfg d fbp [] st = []"
  by (simp add: run_calls_def)

lemma run_calls_Cons:
  "run_calls cfg d fbp (env # envs) st =
     pass_calls cfg d fbp env st @ run_calls cfg d fbp envs (vnc_loop_body cfg d fbp env st)"
proof -
  have "calls (snd (vnc_server_loop cfg d fbp (env # envs) st))
        = calls (snd st) @ pass_calls cfg d fbp env st
          @ run_calls cfg d fbp envs (vnc_loop_body cfg d fbp env st)"
    using vnc_server_loop_calls[of cfg d fbp envs "vnc_loop_body cfg d fbp env st"]
    by (simp add: vnc_loop_body_calls)
  then show ?thesis
    by (simp add: run_calls_def[of cfg d fbp "env # envs"])
qed

text \<open>Every pass, hence every run that is not empty, starts with the reset.\<close>

lemma run_calls_starts_with_reset:
  "run_calls cfg d fbp envs st = [] \<or> hd (run_calls cfg d fbp envs st) = EvResetSession"
proof (cases envs)
  case Nil
  then show ?thesis by (simp add: run_calls_Nil)
next
  case (Cons env envs')
  show ?thesis
    unfolding Cons run_calls_Cons
    by (cases rule: pass_calls_cases[where cfg=cfg and d=d and fbp=fbp and env=env and st=st])
       simp_all
qed

text \<open>An element of two lists appended lies in the first or in the second.\<close>

lemma append_split_element:
  assumes "t @ R = pre @ x # post"
  obtains (left) us where "t = pre @ x # us" "post = us @ R"
        | (right) us where "pre = t @ us" "R = us @ x # post"
proof -
  from assms consider us where "t = pre @ us" "us @ R = x # post"
    | us where "t @ us = pre" "R = us @ x # post"
    by (auto simp: append_eq_append_conv2)
  then show thesis
  proof cases
    case 1
    show thesis
    proof (cases us)
      case Nil
      with 1 show thesis by (intro right[of "[]"]) simp_all
    next
      case (Cons u us')
      with 1 show thesis by (intro left[of us']) simp_all
    qed
  next
    case 2
    then show thesis by (intro right[of us]) simp_all
  qed
qed

text \<open>What follows a successful start of the updater, and what surrounds the receiver.\<close>

lemma run_calls_after_start:
  "run_calls cfg d fbp envs st = pre @ EvStartUpdater r # post \<Longrightarrow> 0 \<le> r \<Longrightarrow>
   \<exists>r4 r5 rest. post = EvFbsemPost # EvReceiver r4 # EvStopUpdater r5 # rest
                \<and> (rest = [] \<or> hd rest = EvResetSession)"
proof (induction envs arbitrary: st pre)
  case Nil
  then show ?case by (simp add: run_calls_Nil)
next
  case (Cons env envs)
  let ?t = "pass_calls cfg d fbp env st"
  let ?R = "run_calls cfg d fbp envs (vnc_loop_body cfg d fbp env st)"
  from Cons.prems(1) have "?t @ ?R = pre @ EvStartUpdater r # post"
    by (simp add: run_calls_Cons)
  then show ?case
  proof (cases rule: append_split_element)
    case (left us)
    have R: "?R = [] \<or> hd ?R = EvResetSession"
      by (rule run_calls_starts_with_reset)
    from left(1) Cons.prems(2) have "\<exists>r4 r5. us = [EvFbsemPost, EvReceiver r4, EvStopUpdater r5]"
      by (cases rule: pass_calls_cases[where cfg=cfg and d=d and fbp=fbp and env=env and st=st])
         (auto simp: Cons_eq_append_conv)
    then obtain r4 r5 where "us = [EvFbsemPost, EvReceiver r4, EvStopUpdater r5]"
      by blast
    with left(2) R show ?thesis by simp
  next
    case (right us)
    from Cons.IH[OF right(2) Cons.prems(2)] show ?thesis .
  qed
qed

lemma run_calls_after_receiver:
  "run_calls cfg d fbp envs st = pre @ EvReceiver r # post \<Longrightarrow>
   \<exists>r5 rest. post = EvStopUpdater r5 # rest \<and> (rest = [] \<or> hd rest = EvResetSession)"
proof (induction envs arbitrary: st pre)
  case Nil
  then show ?case by (simp add: run_calls_Nil)
next
  case (Cons env envs)
  let ?t = "pass_calls cfg d fbp env st"
  let ?R = "run_calls cfg d fbp envs (vnc_loop_body cfg d fbp env st)"
  from Cons.prems(1) have "?t @ ?R = pre @ EvReceiver r # post"
    by (simp add: run_calls_Cons)
  then show ?case
  proof (cases rule: append_split_element)
    case (left us)
    have R: "?R = [] \<or> hd ?R = EvResetSession"
      by (rule run_calls_starts_with_reset)
    from left(1) have "\<exists>r5. us = [EvStopUpdater r5]"
      by (cases rule: pass_calls_cases[where cfg=cfg and d=d and fbp=fbp and env=env and st=st])
         (auto simp: Cons_eq_append_conv)
    then obtain r5 where "us = [EvStopUpdater r5]"
      by blast
    with left(2) R show ?thesis by simp
  next
    case (right us)
    from Cons.IH[OF right(2)] show ?thesis .
  qed
qed

lemma run_calls_before_receiver:
  "run_calls cfg d fbp envs st = pre @ EvReceiver r # post \<Longrightarrow>
   \<exists>pre' r3. pre = pre' @ [EvStartUpdater r3, EvFbsemPost] \<and> 0 \<le> r3"
proof (induction envs arbitrary: st pre)
  case Nil
  then show ?case by (simp add: run_calls_Nil)
next
  case (Cons env envs)
  let ?t = "pass_calls cfg d fbp env st"
  let ?R = "run_calls cfg d fbp envs (vnc_loop_body cfg d fbp env st)"
  from Cons.prems(1) have "?t @ ?R = pre @ EvReceiver r # post"
    by (simp add: run_calls_Cons)
  then show ?case
  proof (cases rule: append_split_element)
    case (left us)
    from left(1) show ?thesis
      by (cases rule: pass_calls_cases[where cfg=cfg and d=d and fbp=fbp and env=env and st=st])
         (auto simp: Cons_eq_append_conv)
  next
    case (right us)
    from Cons.IH[OF right(2)] obtain pre' r3
      where "us = pre' @ [EvStartUpdater r3, EvFbsemPost]" "0 \<le> r3"
      by blast
    with right(1) have "pre = (?t @ pre') @ [EvStartUpdater r3, EvFbsemPost] \<and> 0 \<le> r3"
      by simp
    then show ?thesis by blast
  qed
qed


text \<open>
  C4. In the log of any run of the loop: a call of \<^verbatim>\<open>vnc_start_updater\<close> that
  returned success is followed by the post of the semaphore, the call of
  \<^verbatim>\<open>vnc_receiver\<close> and the call of \<^verbatim>\<open>vnc_stop_updater\<close>, in this order and with
  nothing between them; every call of \<^verbatim>\<open>vnc_receiver\<close> comes after such a start
  and is directly followed by \<^verbatim>\<open>vnc_stop_updater\<close>; and what comes after
  \<^verbatim>\<open>vnc_stop_updater\<close>, if anything, is the \<^verbatim>\<open>vnc_reset_session\<close> of the next pass.
  So the updater is stopped after the receiver returns and before the next
  reset, and no reset lies between the start and the stop of the updater.
\<close>

theorem vnc_server_loop_stop_before_reset:
  "(run_calls cfg d fbp envs st = pre @ EvStartUpdater r # post \<and> 0 \<le> r \<longrightarrow>
      (\<exists>r4 r5 rest. post = EvFbsemPost # EvReceiver r4 # EvStopUpdater r5 # rest
                     \<and> (rest = [] \<or> hd rest = EvResetSession)))
   \<and> (run_calls cfg d fbp envs st = pre' @ EvReceiver r' # post' \<longrightarrow>
      (\<exists>pre'' r3 r5 rest. pre' = pre'' @ [EvStartUpdater r3, EvFbsemPost] \<and> 0 \<le> r3
                     \<and> post' = EvStopUpdater r5 # rest
                     \<and> (rest = [] \<or> hd rest = EvResetSession)))"
proof (intro conjI impI)
  assume "run_calls cfg d fbp envs st = pre @ EvStartUpdater r # post \<and> 0 \<le> r"
  then show "\<exists>r4 r5 rest. post = EvFbsemPost # EvReceiver r4 # EvStopUpdater r5 # rest
                     \<and> (rest = [] \<or> hd rest = EvResetSession)"
    using run_calls_after_start by blast
next
  assume a: "run_calls cfg d fbp envs st = pre' @ EvReceiver r' # post'"
  from run_calls_before_receiver[OF a] obtain pre'' r3
    where "pre' = pre'' @ [EvStartUpdater r3, EvFbsemPost]" "0 \<le> r3"
    by blast
  moreover from run_calls_after_receiver[OF a] obtain r5 rest
    where "post' = EvStopUpdater r5 # rest" "rest = [] \<or> hd rest = EvResetSession"
    by blast
  ultimately show "\<exists>pre'' r3 r5 rest. pre' = pre'' @ [EvStartUpdater r3, EvFbsemPost] \<and> 0 \<le> r3
                     \<and> post' = EvStopUpdater r5 # rest
                     \<and> (rest = [] \<or> hd rest = EvResetSession)"
    by blast
qed

theorem vnc_server_loop_stop_before_reset_witness:
  "run_calls cfg4 0 (Some 4096) [pass_served, pass_negotiate_fails] (zero_session 4, world0) =
     [EvResetSession, EvFbsemReset, EvConnect 0, EvNegotiate 0] @ EvStartUpdater 0 #
     [EvFbsemPost, EvReceiver (- 5), EvStopUpdater 0,
      EvResetSession, EvFbsemReset, EvConnect 0, EvNegotiate (- 5)]
   \<and> (0::int) \<le> 0
   \<and> (\<exists>r4 r5 rest.
        [EvFbsemPost, EvReceiver (- 5), EvStopUpdater 0,
         EvResetSession, EvFbsemReset, EvConnect 0, EvNegotiate (- 5)]
        = EvFbsemPost # EvReceiver r4 # EvStopUpdater r5 # rest
        \<and> (rest = [] \<or> hd rest = EvResetSession))"
proof -
  have run: "run_calls cfg4 0 (Some 4096) [pass_served, pass_negotiate_fails]
       (zero_session 4, world0) =
     [EvResetSession, EvFbsemReset, EvConnect 0, EvNegotiate 0] @ EvStartUpdater 0 #
     [EvFbsemPost, EvReceiver (- 5), EvStopUpdater 0,
      EvResetSession, EvFbsemReset, EvConnect 0, EvNegotiate (- 5)]"
    by code_simp
  from vnc_server_loop_stop_before_reset
         [where cfg = cfg4 and d = 0 and fbp = "Some 4096"
            and envs = "[pass_served, pass_negotiate_fails]"
            and st = "(zero_session 4, world0)"
            and pre = "[EvResetSession, EvFbsemReset, EvConnect 0, EvNegotiate 0]"
            and r = 0
            and post = "[EvFbsemPost, EvReceiver (- 5), EvStopUpdater 0,
                         EvResetSession, EvFbsemReset, EvConnect 0, EvNegotiate (- 5)]"]
    run
  show ?thesis by blast
qed

subsection \<open>Recovery from a failed connection\<close>

text \<open>A reset of a session whose state is at least \<open>VNCSERVER_CONNECTED\<close>.\<close>

lemma vnc_reset_session_closes:
  "VNCSERVER_CONNECTED \<le> state s \<Longrightarrow>
   listen (vnc_reset_session N s fbp) = SockClosed
   \<and> connect (vnc_reset_session N s fbp) = SockClosed
   \<and> state (vnc_reset_session N s fbp) = VNCSERVER_INITIALIZED"
  by (simp add: vnc_reset_session_def psock_close_def Let_def split: prod.splits)

text \<open>
  The start of every pass: the reset, the clearing of the semaphore, then one
  call of \<^verbatim>\<open>vnc_connect\<close> on the session just reset and on the port of the
  display; when that call fails the pass ends with the session it returned.
\<close>

lemma vnc_loop_body_connect:
  "\<exists>rest. pass_calls cfg d fbp env (session, w) =
       EvResetSession # EvFbsemReset
       # EvConnect (fst (vnc_connect (net env)
             (vnc_reset_session (CONFIG_VNCSERVER_NUPDATES cfg) session fbp)
             (RFB_DISPLAY_PORT cfg (int d)))) # rest
     \<and> (\<forall>r. EvConnect r \<notin> set rest)
     \<and> (fst (vnc_connect (net env)
             (vnc_reset_session (CONFIG_VNCSERVER_NUPDATES cfg) session fbp)
             (RFB_DISPLAY_PORT cfg (int d))) < 0 \<longrightarrow>
        fst (vnc_loop_body cfg d fbp env (session, w)) =
          snd (vnc_connect (net env)
             (vnc_reset_session (CONFIG_VNCSERVER_NUPDATES cfg) session fbp)
             (RFB_DISPLAY_PORT cfg (int d))))"
proof -
  define s1 where "s1 = vnc_reset_session (CONFIG_VNCSERVER_NUPDATES cfg) session fbp"
  obtain r1 s2 where c: "vnc_connect (net env) s1 (RFB_DISPLAY_PORT cfg (int d)) = (r1, s2)"
    by fastforce
  obtain r2 s3 where n: "vnc_negotiate env s2 = (r2, s3)"
    by fastforce
  obtain r3 s4 where u: "vnc_start_updater env s3 = (r3, s4)"
    by fastforce
  obtain r4 s5 where r: "vnc_receiver env s4 = (r4, s5)"
    by fastforce
  obtain r5 s6 where t: "vnc_stop_updater env s5 = (r5, s6)"
    by fastforce
  note defs = pass_calls_def vnc_loop_body_def vnc_loop_reset_def vnc_loop_serve_def emit_def
    sem_reset_def sem_post_def s1_def[symmetric]
  consider "r1 < 0" | "0 \<le> r1" "r2 < 0" | "0 \<le> r1" "0 \<le> r2" "r3 < 0"
    | "0 \<le> r1" "0 \<le> r2" "0 \<le> r3"
    by linarith
  then show ?thesis
    unfolding s1_def[symmetric]
  proof cases
    case 1
    then show "\<exists>rest. pass_calls cfg d fbp env (session, w) =
       EvResetSession # EvFbsemReset
       # EvConnect (fst (vnc_connect (net env) s1 (RFB_DISPLAY_PORT cfg (int d)))) # rest
     \<and> (\<forall>r. EvConnect r \<notin> set rest)
     \<and> (fst (vnc_connect (net env) s1 (RFB_DISPLAY_PORT cfg (int d))) < 0 \<longrightarrow>
        fst (vnc_loop_body cfg d fbp env (session, w)) =
          snd (vnc_connect (net env) s1 (RFB_DISPLAY_PORT cfg (int d))))"
      by (simp add: defs c)
  next
    case 2
    then show "\<exists>rest. pass_calls cfg d fbp env (session, w) =
       EvResetSession # EvFbsemReset
       # EvConnect (fst (vnc_connect (net env) s1 (RFB_DISPLAY_PORT cfg (int d)))) # rest
     \<and> (\<forall>r. EvConnect r \<notin> set rest)
     \<and> (fst (vnc_connect (net env) s1 (RFB_DISPLAY_PORT cfg (int d))) < 0 \<longrightarrow>
        fst (vnc_loop_body cfg d fbp env (session, w)) =
          snd (vnc_connect (net env) s1 (RFB_DISPLAY_PORT cfg (int d))))"
      by (simp add: defs c n)
  next
    case 3
    then show "\<exists>rest. pass_calls cfg d fbp env (session, w) =
       EvResetSession # EvFbsemReset
       # EvConnect (fst (vnc_connect (net env) s1 (RFB_DISPLAY_PORT cfg (int d)))) # rest
     \<and> (\<forall>r. EvConnect r \<notin> set rest)
     \<and> (fst (vnc_connect (net env) s1 (RFB_DISPLAY_PORT cfg (int d))) < 0 \<longrightarrow>
        fst (vnc_loop_body cfg d fbp env (session, w)) =
          snd (vnc_connect (net env) s1 (RFB_DISPLAY_PORT cfg (int d))))"
      by (simp add: defs c n u)
  next
    case 4
    then show "\<exists>rest. pass_calls cfg d fbp env (session, w) =
       EvResetSession # EvFbsemReset
       # EvConnect (fst (vnc_connect (net env) s1 (RFB_DISPLAY_PORT cfg (int d)))) # rest
     \<and> (\<forall>r. EvConnect r \<notin> set rest)
     \<and> (fst (vnc_connect (net env) s1 (RFB_DISPLAY_PORT cfg (int d))) < 0 \<longrightarrow>
        fst (vnc_loop_body cfg d fbp env (session, w)) =
          snd (vnc_connect (net env) s1 (RFB_DISPLAY_PORT cfg (int d))))"
      by (simp add: defs c n u r t)
  qed
qed

text \<open>A failed \<^verbatim>\<open>vnc_connect\<close> opens no connection and leaves the state alone.\<close>

lemma vnc_connect_failed_keeps:
  "fst (vnc_connect env s port) < 0 \<Longrightarrow>
   connect (snd (vnc_connect env s port)) = connect s
   \<and> state (snd (vnc_connect env s port)) = state s
   \<and> (listen s = SockClosed \<longrightarrow> listen (snd (vnc_connect env s port)) = SockClosed)"
  by (auto simp: vnc_connect_def errout_with_listener_def psock_close_def OK_def Let_def
           split: if_splits)

text \<open>
  C5. When \<^verbatim>\<open>vnc_negotiate\<close> or \<^verbatim>\<open>vnc_start_updater\<close> returns a negative value in
  a pass and leaves the session in a state of at least \<open>VNCSERVER_CONNECTED\<close>:
  the pass ends at that call; in the log of every run that goes on, the calls
  of that pass are directly followed by the reset, the clearing of the
  semaphore and the \<^verbatim>\<open>vnc_connect\<close> of the next pass, so the loop continues;
  the session the loop hands to that \<^verbatim>\<open>vnc_connect\<close> has both sockets closed and
  the state \<open>VNCSERVER_INITIALIZED\<close>; and if that next accept fails as well, the
  session the loop is left with still has both sockets closed and the state
  \<open>VNCSERVER_INITIALIZED\<close>.
\<close>

theorem vnc_loop_recovers_after_failure:
  assumes failed: "\<exists>r<0. EvNegotiate r \<in> set (pass_calls cfg d fbp env st)
                       \<or> EvStartUpdater r \<in> set (pass_calls cfg d fbp env st)"
    and connected: "VNCSERVER_CONNECTED \<le> state (fst (vnc_loop_body cfg d fbp env st))"
  shows "(\<exists>r<0. last (pass_calls cfg d fbp env st) = EvNegotiate r
               \<or> last (pass_calls cfg d fbp env st) = EvStartUpdater r)
    \<and> (\<exists>r1 rest. run_calls cfg d fbp (env # env' # envs) st =
          pass_calls cfg d fbp env st @ EvResetSession # EvFbsemReset # EvConnect r1 # rest)
    \<and> vnc_server_loop cfg d fbp [env, env'] st =
        vnc_loop_serve cfg d env' (vnc_loop_reset cfg d fbp (vnc_server_loop cfg d fbp [env] st))
    \<and> listen (fst (vnc_loop_reset cfg d fbp (vnc_server_loop cfg d fbp [env] st))) = SockClosed
    \<and> connect (fst (vnc_loop_reset cfg d fbp (vnc_server_loop cfg d fbp [env] st))) = SockClosed
    \<and> state (fst (vnc_loop_reset cfg d fbp (vnc_server_loop cfg d fbp [env] st)))
        = VNCSERVER_INITIALIZED
    \<and> ((\<exists>r<0. EvConnect r \<in> set (pass_calls cfg d fbp env' (vnc_server_loop cfg d fbp [env] st)))
        \<longrightarrow> listen (fst (vnc_server_loop cfg d fbp [env, env'] st)) = SockClosed
          \<and> connect (fst (vnc_server_loop cfg d fbp [env, env'] st)) = SockClosed
          \<and> state (fst (vnc_server_loop cfg d fbp [env, env'] st)) = VNCSERVER_INITIALIZED)"
proof -
  let ?st1 = "vnc_loop_body cfg d fbp env st"
  have one: "vnc_server_loop cfg d fbp [env] st = ?st1"
    by simp
  have ended: "\<exists>r<0. last (pass_calls cfg d fbp env st) = EvNegotiate r
               \<or> last (pass_calls cfg d fbp env st) = EvStartUpdater r"
    using failed
    by (cases rule: pass_calls_cases[where cfg=cfg and d=d and fbp=fbp and env=env and st=st])
       auto
  obtain r1 t where nxt: "pass_calls cfg d fbp env' ?st1
          = EvResetSession # EvFbsemReset # EvConnect r1 # t"
    by (cases rule: pass_calls_cases[where cfg=cfg and d=d and fbp=fbp and env=env'
          and st="?st1"]) simp_all
  have "run_calls cfg d fbp (env # env' # envs) st =
          pass_calls cfg d fbp env st @ EvResetSession # EvFbsemReset # EvConnect r1
            # (t @ run_calls cfg d fbp envs (vnc_loop_body cfg d fbp env' ?st1))"
    by (simp add: run_calls_Cons nxt)
  then have continues: "\<exists>r1 rest. run_calls cfg d fbp (env # env' # envs) st =
          pass_calls cfg d fbp env st @ EvResetSession # EvFbsemReset # EvConnect r1 # rest"
    by blast
  have two: "vnc_server_loop cfg d fbp [env, env'] st =
        vnc_loop_serve cfg d env' (vnc_loop_reset cfg d fbp (vnc_server_loop cfg d fbp [env] st))"
    by (simp add: vnc_loop_body_def[of cfg d fbp env'])
  obtain s1 w1 where st1: "?st1 = (s1, w1)"
    by fastforce
  let ?N = "CONFIG_VNCSERVER_NUPDATES cfg"
  have reset: "fst (vnc_loop_reset cfg d fbp (s1, w1)) = vnc_reset_session ?N s1 fbp"
    by (simp add: vnc_loop_reset_def Let_def)
  have cl: "listen (vnc_reset_session ?N s1 fbp) = SockClosed
      \<and> connect (vnc_reset_session ?N s1 fbp) = SockClosed
      \<and> state (vnc_reset_session ?N s1 fbp) = VNCSERVER_INITIALIZED"
    using connected vnc_reset_session_closes[of s1 ?N fbp] by (simp add: st1)
  then have closed: "listen (fst (vnc_loop_reset cfg d fbp (vnc_server_loop cfg d fbp [env] st)))
        = SockClosed
    \<and> connect (fst (vnc_loop_reset cfg d fbp (vnc_server_loop cfg d fbp [env] st))) = SockClosed
    \<and> state (fst (vnc_loop_reset cfg d fbp (vnc_server_loop cfg d fbp [env] st)))
        = VNCSERVER_INITIALIZED"
    by (simp add: st1 reset)
  have refused: "listen (fst (vnc_server_loop cfg d fbp [env, env'] st)) = SockClosed
          \<and> connect (fst (vnc_server_loop cfg d fbp [env, env'] st)) = SockClosed
          \<and> state (fst (vnc_server_loop cfg d fbp [env, env'] st)) = VNCSERVER_INITIALIZED"
    if a: "\<exists>r<0. EvConnect r \<in> set (pass_calls cfg d fbp env' (vnc_server_loop cfg d fbp [env] st))"
  proof -
    let ?C = "vnc_connect (net env') (vnc_reset_session ?N s1 fbp) (RFB_DISPLAY_PORT cfg (int d))"
    from vnc_loop_body_connect[of cfg d fbp env' s1 w1] obtain rest
      where log: "pass_calls cfg d fbp env' (s1, w1) =
                    EvResetSession # EvFbsemReset # EvConnect (fst ?C) # rest"
        and only: "\<forall>r. EvConnect r \<notin> set rest"
        and fin: "fst ?C < 0 \<longrightarrow> fst (vnc_loop_body cfg d fbp env' (s1, w1)) = snd ?C"
      by blast
    from a obtain r where "r < 0" "EvConnect r \<in> set (pass_calls cfg d fbp env' (s1, w1))"
      by (auto simp: st1)
    with log only have neg: "fst ?C < 0"
      by auto
    with fin have "fst (vnc_server_loop cfg d fbp [env, env'] st) = snd ?C"
      by (simp add: st1)
    with vnc_connect_failed_keeps[OF neg] cl show ?thesis
      by simp
  qed
  from ended continues two closed refused show ?thesis
    by blast
qed

theorem vnc_loop_recovers_after_failure_witness:
  "(\<exists>r<0. EvNegotiate r
        \<in> set (pass_calls cfg4 0 (Some 4096) pass_negotiate_fails (zero_session 4, world0)))
   \<and> VNCSERVER_CONNECTED
       \<le> state (fst (vnc_loop_body cfg4 0 (Some 4096) pass_negotiate_fails (zero_session 4, world0)))
   \<and> connect (fst (vnc_server_loop cfg4 0 (Some 4096) [pass_negotiate_fails]
        (zero_session 4, world0))) = SockOpen
   \<and> run_calls cfg4 0 (Some 4096) [pass_negotiate_fails, pass_accept_fails]
        (zero_session 4, world0) =
       [EvResetSession, EvFbsemReset, EvConnect 0, EvNegotiate (- 5),
        EvResetSession, EvFbsemReset, EvConnect (- 4)]
   \<and> (\<exists>r1 rest. run_calls cfg4 0 (Some 4096) [pass_negotiate_fails, pass_accept_fails]
          (zero_session 4, world0) =
        pass_calls cfg4 0 (Some 4096) pass_negotiate_fails (zero_session 4, world0)
          @ EvResetSession # EvFbsemReset # EvConnect r1 # rest)
   \<and> listen (fst (vnc_server_loop cfg4 0 (Some 4096) [pass_negotiate_fails, pass_accept_fails]
        (zero_session 4, world0))) = SockClosed
   \<and> connect (fst (vnc_server_loop cfg4 0 (Some 4096) [pass_negotiate_fails, pass_accept_fails]
        (zero_session 4, world0))) = SockClosed
   \<and> state (fst (vnc_server_loop cfg4 0 (Some 4096) [pass_negotiate_fails, pass_accept_fails]
        (zero_session 4, world0))) = VNCSERVER_INITIALIZED"
proof -
  have log: "pass_calls cfg4 0 (Some 4096) pass_negotiate_fails (zero_session 4, world0) =
     [EvResetSession, EvFbsemReset, EvConnect 0, EvNegotiate (- 5)]"
    by code_simp
  have f: "\<exists>r<0. EvNegotiate r
        \<in> set (pass_calls cfg4 0 (Some 4096) pass_negotiate_fails (zero_session 4, world0))
      \<or> EvStartUpdater r
        \<in> set (pass_calls cfg4 0 (Some 4096) pass_negotiate_fails (zero_session 4, world0))"
    unfolding log by (intro exI[of _ "- 5"]) simp
  have f': "\<exists>r<0. EvNegotiate r
        \<in> set (pass_calls cfg4 0 (Some 4096) pass_negotiate_fails (zero_session 4, world0))"
    unfolding log by (intro exI[of _ "- 5"]) simp
  have c: "VNCSERVER_CONNECTED
       \<le> state (fst (vnc_loop_body cfg4 0 (Some 4096) pass_negotiate_fails (zero_session 4, world0)))"
    by code_simp
  have o: "connect (fst (vnc_server_loop cfg4 0 (Some 4096) [pass_negotiate_fails]
        (zero_session 4, world0))) = SockOpen"
    by code_simp
  have run: "run_calls cfg4 0 (Some 4096) [pass_negotiate_fails, pass_accept_fails]
        (zero_session 4, world0) =
       [EvResetSession, EvFbsemReset, EvConnect 0, EvNegotiate (- 5),
        EvResetSession, EvFbsemReset, EvConnect (- 4)]"
    by code_simp
  have nxt: "pass_calls cfg4 0 (Some 4096) pass_accept_fails
        (vnc_server_loop cfg4 0 (Some 4096) [pass_negotiate_fails] (zero_session 4, world0)) =
       [EvResetSession, EvFbsemReset, EvConnect (- 4)]"
    by code_simp
  have a: "\<exists>r<0. EvConnect r \<in> set (pass_calls cfg4 0 (Some 4096) pass_accept_fails
        (vnc_server_loop cfg4 0 (Some 4096) [pass_negotiate_fails] (zero_session 4, world0)))"
    unfolding nxt by (intro exI[of _ "- 4"]) simp
  from vnc_loop_recovers_after_failure
         [OF f c, where env' = pass_accept_fails and envs = "[]"]
       f' c o run a
  show ?thesis
    by blast
qed

subsection \<open>Start of the daemon\<close>

text \<open>
  The loop never writes the registry, and nothing after the entry of
  \<^verbatim>\<open>vnc_server\<close> depends on \<open>CONFIG_DEBUG\<close>.
\<close>

lemma vnc_server_loop_registry:
  "g_vnc_sessions (snd (vnc_server_loop cfg d fbp envs st)) = g_vnc_sessions (snd st)"
  by (induction envs arbitrary: st) (simp_all add: vnc_loop_body_registry)

lemma vnc_loop_body_debug:
  "vnc_loop_body (cfg\<lparr>CONFIG_DEBUG := b\<rparr>) d fbp env st = vnc_loop_body cfg d fbp env st"
  by (simp add: vnc_loop_body_def vnc_loop_reset_def vnc_loop_serve_def RFB_DISPLAY_PORT_def)

lemma vnc_server_loop_debug:
  "vnc_server_loop (cfg\<lparr>CONFIG_DEBUG := b\<rparr>) d fbp envs st = vnc_server_loop cfg d fbp envs st"
  by (induction envs arbitrary: st) (simp_all add: vnc_loop_body_debug)

lemma vnc_server_display_debug:
  "vnc_server_display (cfg\<lparr>CONFIG_DEBUG := b\<rparr>) env display w = vnc_server_display cfg env display w"
  by (simp add: vnc_server_display_def vnc_server_loop_debug Let_def split: option.splits)

text \<open>
  Every pass resets once and registers nothing; the loop of one display
  leaves the semaphores of the other displays alone; past its entry the
  daemon fails no assertion.
\<close>

lemma pass_calls_resets:
  "length (filter (\<lambda>e. e = EvResetSession) (pass_calls cfg d fbp env st)) = 1"
  by (cases rule: pass_calls_cases[where cfg=cfg and d=d and fbp=fbp and env=env and st=st])
     simp_all

lemma run_calls_resets:
  "length (filter (\<lambda>e. e = EvResetSession) (run_calls cfg d fbp envs st)) = length envs"
  by (induction envs arbitrary: st) (simp_all add: run_calls_Nil run_calls_Cons pass_calls_resets)

lemma pass_calls_no_register: "EvRegister r \<notin> set (pass_calls cfg d fbp env st)"
  by (cases rule: pass_calls_cases[where cfg=cfg and d=d and fbp=fbp and env=env and st=st])
     simp_all

lemma run_calls_no_register: "EvRegister r \<notin> set (run_calls cfg d fbp envs st)"
  by (induction envs arbitrary: st)
     (simp_all add: run_calls_Nil run_calls_Cons pass_calls_no_register)

lemma vnc_loop_body_other_fbsem:
  "d' \<noteq> d \<Longrightarrow> g_fbsem (snd (vnc_loop_body cfg d fbp env st)) d' = g_fbsem (snd st) d'"
proof -
  assume neq: "d' \<noteq> d"
  obtain session w where st: "st = (session, w)"
    by (cases st)
  show ?thesis
    using neq
    by (cases rule: vnc_loop_body_cases[where cfg=cfg and d=d and fbp=fbp and env=env
          and session=session and w=w]) (simp_all add: st)
qed

lemma vnc_server_loop_other_fbsem:
  "d' \<noteq> d \<Longrightarrow> g_fbsem (snd (vnc_server_loop cfg d fbp envs st)) d' = g_fbsem (snd st) d'"
  by (induction envs arbitrary: st) (simp_all add: vnc_loop_body_other_fbsem)

lemma vnc_server_display_not_assertion:
  "fst (vnc_server_display cfg env display w) \<noteq> AssertionFailed"
  by (simp add: vnc_server_display_def Let_def case_prod_beta split: option.splits)

text \<open>A string with no leading digit is parsed to \<open>0\<close>.\<close>

lemma atoi_c_no_leading_digit:
  assumes "no_leading_digit str"
  shows "atoi_c str = 0"
proof (cases "dropWhile isspace str")
  case Nil
  show ?thesis unfolding atoi_c_def Nil by simp
next
  case (Cons c cs)
  show ?thesis
  proof (cases "c = CHR ''-'' \<or> c = CHR ''+''")
    case True
    with assms Cons have "cs = [] \<or> \<not> isdigit (hd cs)"
      by (cases cs) (simp_all add: no_leading_digit_def)
    then have "atoi_digits 0 cs = 0"
      by (cases cs) auto
    with True Cons show ?thesis
      by (auto simp: atoi_c_def)
  next
    case False
    with assms Cons have "\<not> isdigit c"
      by (simp add: no_leading_digit_def)
    with False Cons show ?thesis
      by (simp add: atoi_c_def)
  qed
qed

text \<open>
  C7. When the display parsed from \<^verbatim>\<open>argv[1]\<close> is negative or at least
  \<open>RFB_MAX_DISPLAYS\<close>, \<^verbatim>\<open>vnc_server\<close> leaves the globals as they are (no
  allocation is made, the registry is not written) and, unless the entry
  assertion has stopped it, returns \<open>EXIT_FAILURE\<close>. Whenever a call of
  \<^verbatim>\<open>vnc_server\<close> writes the registry, the display is in range, both calls of
  \<^verbatim>\<open>kmm_zalloc\<close> returned memory, and the write comes after both of them.
\<close>

theorem vnc_server_rejects_display:
  "(length argv = 2
      \<and> (atoi env (argv ! 1) < 0 \<or> RFB_MAX_DISPLAYS cfg \<le> atoi env (argv ! 1)) \<longrightarrow>
      snd (vnc_server cfg env session0 argv w) = w
      \<and> fst (vnc_server cfg env session0 argv w)
          = (if CONFIG_DEBUG cfg \<and> session0 = None then AssertionFailed
             else Returned EXIT_FAILURE))
   \<and> ((\<exists>d. EvRegister d \<in> set (drop (length (calls w))
                                   (calls (snd (vnc_server cfg env session0 argv w)))))
       \<or> g_vnc_sessions (snd (vnc_server cfg env session0 argv w)) \<noteq> g_vnc_sessions w \<longrightarrow>
      (\<exists>fbp sp rest.
          alloc_fb env = Some fbp \<and> alloc_session env = Some sp
          \<and> 0 \<le> atoi env (argv ! 1) \<and> atoi env (argv ! 1) < RFB_MAX_DISPLAYS cfg
          \<and> calls (snd (vnc_server cfg env session0 argv w))
              = calls w @ EvKmmZalloc (Some fbp) # EvKmmZalloc (Some sp)
                  # EvRegister (nat (atoi env (argv ! 1))) # rest
          \<and> g_vnc_sessions (snd (vnc_server cfg env session0 argv w))
              = (g_vnc_sessions w)(nat (atoi env (argv ! 1)) := Some sp)))"
proof (intro conjI impI)
  assume "length argv = 2
      \<and> (atoi env (argv ! 1) < 0 \<or> RFB_MAX_DISPLAYS cfg \<le> atoi env (argv ! 1))"
  then show "snd (vnc_server cfg env session0 argv w) = w"
    by (auto simp: vnc_server_def Let_def)
next
  assume "length argv = 2
      \<and> (atoi env (argv ! 1) < 0 \<or> RFB_MAX_DISPLAYS cfg \<le> atoi env (argv ! 1))"
  then show "fst (vnc_server cfg env session0 argv w)
          = (if CONFIG_DEBUG cfg \<and> session0 = None then AssertionFailed
             else Returned EXIT_FAILURE)"
    by (auto simp: vnc_server_def Let_def)
next
  let ?w' = "snd (vnc_server cfg env session0 argv w)"
  let ?display = "atoi env (argv ! 1)"
  assume written: "(\<exists>d. EvRegister d \<in> set (drop (length (calls w)) (calls ?w')))
       \<or> g_vnc_sessions ?w' \<noteq> g_vnc_sessions w"
  have valid: "\<not> (CONFIG_DEBUG cfg \<and> session0 = None) \<and> int (length argv) = 2
      \<and> 0 \<le> ?display \<and> ?display < RFB_MAX_DISPLAYS cfg"
    using written by (auto simp: vnc_server_def Let_def split: if_splits)
  then have run: "vnc_server cfg env session0 argv w = vnc_server_display cfg env ?display w"
    by (auto simp: vnc_server_def Let_def)
  obtain fbp where fbp: "alloc_fb env = Some fbp"
    using written unfolding run
    by (cases "alloc_fb env") (auto simp: vnc_server_display_def emit_def Let_def)
  obtain sp where sp: "alloc_session env = Some sp"
    using written unfolding run
    by (cases "alloc_session env") (auto simp: vnc_server_display_def emit_def Let_def fbp)
  let ?N = "CONFIG_VNCSERVER_NUPDATES cfg"
  let ?w1 = "w\<lparr>g_vnc_sessions := (g_vnc_sessions w)(nat ?display := Some sp),
               calls := calls w @ [EvKmmZalloc (Some fbp), EvKmmZalloc (Some sp),
                                     EvRegister (nat ?display)]\<rparr>"
  let ?st = "((zero_session ?N)\<lparr>freesem := int ?N, queuesem := 0\<rparr>, ?w1)"
  have w': "?w' = snd (vnc_server_loop cfg (nat ?display) (Some fbp) (passes env) ?st)"
    unfolding run
    by (simp add: vnc_server_display_def emit_def Let_def fbp sp case_prod_beta)
  have "calls ?w' = calls w @ EvKmmZalloc (Some fbp) # EvKmmZalloc (Some sp)
           # EvRegister (nat ?display) # run_calls cfg (nat ?display) (Some fbp) (passes env) ?st"
    unfolding w' by (simp add: vnc_server_loop_calls)
  moreover have "g_vnc_sessions ?w' = (g_vnc_sessions w)(nat ?display := Some sp)"
    unfolding w' by (simp add: vnc_server_loop_registry)
  ultimately show "\<exists>fbp sp rest.
          alloc_fb env = Some fbp \<and> alloc_session env = Some sp
          \<and> 0 \<le> ?display \<and> ?display < RFB_MAX_DISPLAYS cfg
          \<and> calls ?w' = calls w @ EvKmmZalloc (Some fbp) # EvKmmZalloc (Some sp)
                  # EvRegister (nat ?display) # rest
          \<and> g_vnc_sessions ?w' = (g_vnc_sessions w)(nat ?display := Some sp)"
    using fbp sp valid by blast
qed


theorem vnc_server_rejects_display_witness:
  "length [''vnc_server'', ''-1''] = 2
   \<and> atoi env_one_pass ([''vnc_server'', ''-1''] ! 1) < 0
   \<and> vnc_server cfg4 env_one_pass None [''vnc_server'', ''-1''] world0
       = (Returned EXIT_FAILURE, world0)
   \<and> (\<exists>d. EvRegister d \<in> set (drop (length (calls world0))
         (calls (snd (vnc_server cfg4 env_one_pass None [''vnc_server'', ''1''] world0)))))
   \<and> g_vnc_sessions (snd (vnc_server cfg4 env_one_pass None [''vnc_server'', ''1''] world0))
       = (g_vnc_sessions world0)(1 := Some 8192)"
proof -
  have h: "\<not> CONFIG_DEBUG cfg4"
    "length [''vnc_server'', ''-1''] = 2"
    "atoi env_one_pass ([''vnc_server'', ''-1''] ! 1) < 0"
    by (simp_all add: cfg4_def env_one_pass_def atoi_c_def isspace_def isdigit_def)
  have log: "calls (snd (vnc_server cfg4 env_one_pass None [''vnc_server'', ''1''] world0)) =
      [EvKmmZalloc (Some 4096), EvKmmZalloc (Some 8192), EvRegister 1,
       EvResetSession, EvFbsemReset, EvConnect 0, EvNegotiate 0, EvStartUpdater 0,
       EvFbsemPost, EvReceiver (- 5), EvStopUpdater 0]"
    by code_simp
  have reg: "\<exists>d. EvRegister d \<in> set (drop (length (calls world0))
         (calls (snd (vnc_server cfg4 env_one_pass None [''vnc_server'', ''1''] world0))))"
    unfolding log by (intro exI[of _ 1]) (simp add: world0_def)
  have a: "alloc_session env_one_pass = Some 8192"
    "nat (atoi env_one_pass ([''vnc_server'', ''1''] ! 1)) = 1"
    by (simp_all add: env_one_pass_def atoi_c_def isspace_def isdigit_def)
  from vnc_server_rejects_display
         [where cfg = cfg4 and env = env_one_pass and ?session0.0 = None
            and argv = "[''vnc_server'', ''-1'']" and w = world0]
       vnc_server_rejects_display
         [where cfg = cfg4 and env = env_one_pass and ?session0.0 = None
            and argv = "[''vnc_server'', ''1'']" and w = world0]
       h reg a
  show ?thesis by (auto simp: prod_eq_iff)
qed

text \<open>
  C10, as stated: every string that is not a number would be parsed to \<open>0\<close> and
  served as display \<open>0\<close>. The string \<open>1abc\<close> is not a numeric string, \<^verbatim>\<open>atoi\<close>
  parses it to \<open>1\<close>, and the daemon registers and serves display \<open>1\<close>, not
  display \<open>0\<close>.
\<close>

theorem vnc_server_malformed_number:
  "\<not> numeric_string ''1abc''
   \<and> atoi env_display0 ''1abc'' = 1
   \<and> g_vnc_sessions (snd (vnc_server cfg4 env_display0 None [''vnc_server'', ''1abc''] world0)) 0
       = None
   \<and> g_vnc_sessions (snd (vnc_server cfg4 env_display0 None [''vnc_server'', ''1abc''] world0)) 1
       = Some 8192"
  by code_simp

text \<open>
  C10, amended: if \<^verbatim>\<open>atoi\<close> gives \<open>0\<close> for \<^verbatim>\<open>argv[1]\<close>, which the C library's
  \<^verbatim>\<open>atoi\<close> does for every string with no leading digit, then \<^verbatim>\<open>vnc_server\<close>, when
  at least one display is configured and the entry assertion has not stopped
  it, does not reject the argument: it goes on to allocate, and when both
  allocations succeed it registers the session as \<^verbatim>\<open>g_vnc_sessions[0]\<close> and runs
  the loop for display \<open>0\<close>: one reset for each pass observed, the first
  \<^verbatim>\<open>vnc_connect\<close> on the port of display \<open>0\<close>, no other registry write, and no
  semaphore but that of display \<open>0\<close> touched. The daemon reads \<^verbatim>\<open>argv[1]\<close> through
  \<^verbatim>\<open>atoi\<close> only: two strings with the same parsed value give the same run.
\<close>

theorem vnc_server_atoi_zero:
  assumes entry: "\<not> (CONFIG_DEBUG cfg \<and> session0 = None)"
    and argc: "length argv = 2"
    and zero: "atoi env (argv ! 1) = 0 \<or> (atoi env = atoi_c \<and> no_leading_digit (argv ! 1))"
    and displays: "0 < RFB_MAX_DISPLAYS cfg"
  shows "(\<exists>rest. calls (snd (vnc_server cfg env session0 argv w))
            = calls w @ EvKmmZalloc (alloc_fb env) # rest)
    \<and> (alloc_fb env = Some fbp \<and> alloc_session env = Some sp \<longrightarrow>
         (\<exists>session rest.
            fst (vnc_server cfg env session0 argv w) = Serving session
            \<and> g_vnc_sessions (snd (vnc_server cfg env session0 argv w))
                = (g_vnc_sessions w)(0 := Some sp)
            \<and> calls (snd (vnc_server cfg env session0 argv w))
                = calls w @ EvKmmZalloc (Some fbp) # EvKmmZalloc (Some sp) # EvRegister 0 # rest
            \<and> length (filter (\<lambda>e. e = EvResetSession) rest) = length (passes env)
            \<and> (\<forall>r. EvRegister r \<notin> set rest)
            \<and> (\<forall>p ps. passes env = p # ps \<longrightarrow>
                 (\<exists>S rest'. rest = EvResetSession # EvFbsemReset
                     # EvConnect (fst (vnc_connect (net p) S (RFB_DISPLAY_PORT cfg 0))) # rest'))
            \<and> (\<forall>d. d \<noteq> 0 \<longrightarrow>
                 g_fbsem (snd (vnc_server cfg env session0 argv w)) d = g_fbsem w d)))
    \<and> (atoi env str = atoi env (argv ! 1) \<longrightarrow>
         vnc_server cfg env session0 [argv ! 0, str] w = vnc_server cfg env session0 argv w)"
proof -
  have z: "atoi env (argv ! 1) = 0"
    using zero atoi_c_no_leading_digit by auto
  have run: "vnc_server cfg env session0 argv w = vnc_server_display cfg env 0 w"
    using entry argc z displays by (auto simp: vnc_server_def Let_def)
  have alloc: "\<exists>rest. calls (snd (vnc_server_display cfg env 0 w))
            = calls w @ EvKmmZalloc (alloc_fb env) # rest"
  proof (cases "alloc_fb env")
    case None
    then show ?thesis
      by (simp add: vnc_server_display_def emit_def Let_def)
  next
    case (Some fbp')
    show ?thesis
    proof (cases "alloc_session env")
      case None
      with Some show ?thesis
        by (simp add: vnc_server_display_def emit_def Let_def)
    next
      case (Some sp')
      with \<open>alloc_fb env = Some fbp'\<close> show ?thesis
        by (simp add: vnc_server_display_def emit_def Let_def case_prod_beta
                      vnc_server_loop_calls)
    qed
  qed
  have serve: "\<exists>session rest.
            fst (vnc_server_display cfg env 0 w) = Serving session
            \<and> g_vnc_sessions (snd (vnc_server_display cfg env 0 w))
                = (g_vnc_sessions w)(0 := Some sp)
            \<and> calls (snd (vnc_server_display cfg env 0 w))
                = calls w @ EvKmmZalloc (Some fbp) # EvKmmZalloc (Some sp) # EvRegister 0 # rest
            \<and> length (filter (\<lambda>e. e = EvResetSession) rest) = length (passes env)
            \<and> (\<forall>r. EvRegister r \<notin> set rest)
            \<and> (\<forall>p ps. passes env = p # ps \<longrightarrow>
                 (\<exists>S rest'. rest = EvResetSession # EvFbsemReset
                     # EvConnect (fst (vnc_connect (net p) S (RFB_DISPLAY_PORT cfg 0))) # rest'))
            \<and> (\<forall>d. d \<noteq> 0 \<longrightarrow>
                 g_fbsem (snd (vnc_server_display cfg env 0 w)) d = g_fbsem w d)"
    if fb: "alloc_fb env = Some fbp" and se: "alloc_session env = Some sp"
  proof -
    let ?N = "CONFIG_VNCSERVER_NUPDATES cfg"
    let ?init = "(zero_session ?N)\<lparr>freesem := int ?N, queuesem := 0\<rparr>"
    let ?w1 = "w\<lparr>g_vnc_sessions := (g_vnc_sessions w)(0 := Some sp),
                  calls := calls w @ [EvKmmZalloc (Some fbp), EvKmmZalloc (Some sp),
                                      EvRegister 0]\<rparr>"
    let ?L = "vnc_server_loop cfg 0 (Some fbp) (passes env) (?init, ?w1)"
    let ?rest = "run_calls cfg 0 (Some fbp) (passes env) (?init, ?w1)"
    have res: "vnc_server_display cfg env 0 w = (Serving (fst ?L), snd ?L)"
      by (simp add: vnc_server_display_def emit_def Let_def fb se case_prod_beta)
    have 1: "fst (vnc_server_display cfg env 0 w) = Serving (fst ?L)"
      by (simp add: res)
    have 2: "g_vnc_sessions (snd (vnc_server_display cfg env 0 w))
                = (g_vnc_sessions w)(0 := Some sp)"
      by (simp add: res vnc_server_loop_registry)
    have 3: "calls (snd (vnc_server_display cfg env 0 w))
                = calls w @ EvKmmZalloc (Some fbp) # EvKmmZalloc (Some sp) # EvRegister 0 # ?rest"
      by (simp add: res vnc_server_loop_calls)
    have 4: "length (filter (\<lambda>e. e = EvResetSession) ?rest) = length (passes env)"
      by (rule run_calls_resets)
    have 5: "\<forall>r. EvRegister r \<notin> set ?rest"
      by (simp add: run_calls_no_register)
    have 6: "\<forall>p ps. passes env = p # ps \<longrightarrow>
                 (\<exists>S rest'. ?rest = EvResetSession # EvFbsemReset
                     # EvConnect (fst (vnc_connect (net p) S (RFB_DISPLAY_PORT cfg 0))) # rest')"
    proof (intro allI impI)
      fix p ps
      assume ps: "passes env = p # ps"
      from vnc_loop_body_connect[of cfg 0 "Some fbp" p ?init ?w1] obtain t
        where "pass_calls cfg 0 (Some fbp) p (?init, ?w1) =
                 EvResetSession # EvFbsemReset
                 # EvConnect (fst (vnc_connect (net p)
                       (vnc_reset_session ?N ?init (Some fbp)) (RFB_DISPLAY_PORT cfg (int 0)))) # t"
        by blast
      then have "?rest = EvResetSession # EvFbsemReset
                 # EvConnect (fst (vnc_connect (net p)
                       (vnc_reset_session ?N ?init (Some fbp)) (RFB_DISPLAY_PORT cfg 0)))
                 # (t @ run_calls cfg 0 (Some fbp) ps
                          (vnc_loop_body cfg 0 (Some fbp) p (?init, ?w1)))"
        by (simp add: ps run_calls_Cons)
      then show "\<exists>S rest'. ?rest = EvResetSession # EvFbsemReset
                     # EvConnect (fst (vnc_connect (net p) S (RFB_DISPLAY_PORT cfg 0))) # rest'"
        by blast
    qed
    have 7: "\<forall>d. d \<noteq> 0 \<longrightarrow>
                 g_fbsem (snd (vnc_server_display cfg env 0 w)) d = g_fbsem w d"
      by (simp add: res vnc_server_loop_other_fbsem)
    from 1 2 3 4 5 6 7 show ?thesis
      by blast
  qed
  have only: "vnc_server cfg env session0 [argv ! 0, str] w = vnc_server cfg env session0 argv w"
    if "atoi env str = atoi env (argv ! 1)"
    using that argc by (simp add: vnc_server_def Let_def)
  from alloc serve only show ?thesis
    unfolding run by blast
qed

theorem vnc_server_atoi_zero_witness:
  "\<not> (CONFIG_DEBUG cfg4 \<and> (None :: nat option) = None)
   \<and> length [''vnc_server'', ''abc''] = 2
   \<and> atoi env_display0 = atoi_c \<and> no_leading_digit ([''vnc_server'', ''abc''] ! 1)
   \<and> 0 < RFB_MAX_DISPLAYS cfg4
   \<and> alloc_fb env_display0 = Some 4096 \<and> alloc_session env_display0 = Some 8192
   \<and> (\<exists>session rest.
        fst (vnc_server cfg4 env_display0 None [''vnc_server'', ''abc''] world0) = Serving session
        \<and> g_vnc_sessions (snd (vnc_server cfg4 env_display0 None [''vnc_server'', ''abc''] world0))
            = (g_vnc_sessions world0)(0 := Some 8192)
        \<and> calls (snd (vnc_server cfg4 env_display0 None [''vnc_server'', ''abc''] world0))
            = calls world0 @ EvKmmZalloc (Some 4096) # EvKmmZalloc (Some 8192) # EvRegister 0 # rest
        \<and> length (filter (\<lambda>e. e = EvResetSession) rest) = length (passes env_display0))
   \<and> calls (snd (vnc_server cfg4 env_display0 None [''vnc_server'', ''abc''] world0)) =
       [EvKmmZalloc (Some 4096), EvKmmZalloc (Some 8192), EvRegister 0,
        EvResetSession, EvFbsemReset, EvConnect 0, EvNegotiate 0, EvStartUpdater 0,
        EvFbsemPost, EvReceiver (- 5), EvStopUpdater 0,
        EvResetSession, EvFbsemReset, EvConnect 0, EvNegotiate (- 5)]"
proof -
  have entry: "\<not> (CONFIG_DEBUG cfg4 \<and> (None :: nat option) = None)"
    by (simp add: cfg4_def)
  have argc: "length [''vnc_server'', ''abc''] = 2"
    by simp
  have lib: "atoi env_display0 = atoi_c"
    by (simp add: env_display0_def)
  have nld: "no_leading_digit ([''vnc_server'', ''abc''] ! 1)"
    by (simp add: no_leading_digit_def isspace_def isdigit_def)
  have zero: "atoi env_display0 ([''vnc_server'', ''abc''] ! 1) = 0
      \<or> (atoi env_display0 = atoi_c \<and> no_leading_digit ([''vnc_server'', ''abc''] ! 1))"
    using lib nld by blast
  have displays: "0 < RFB_MAX_DISPLAYS cfg4"
    by (simp add: cfg4_def)
  have a: "alloc_fb env_display0 = Some 4096" "alloc_session env_display0 = Some 8192"
    by (simp_all add: env_display0_def)
  have log: "calls (snd (vnc_server cfg4 env_display0 None [''vnc_server'', ''abc''] world0)) =
       [EvKmmZalloc (Some 4096), EvKmmZalloc (Some 8192), EvRegister 0,
        EvResetSession, EvFbsemReset, EvConnect 0, EvNegotiate 0, EvStartUpdater 0,
        EvFbsemPost, EvReceiver (- 5), EvStopUpdater 0,
        EvResetSession, EvFbsemReset, EvConnect 0, EvNegotiate (- 5)]"
    by code_simp
  from vnc_server_atoi_zero
         [OF entry argc zero displays, where w = world0 and fbp = 4096 and sp = 8192]
       a
  have "\<exists>session rest.
        fst (vnc_server cfg4 env_display0 None [''vnc_server'', ''abc''] world0) = Serving session
        \<and> g_vnc_sessions (snd (vnc_server cfg4 env_display0 None [''vnc_server'', ''abc''] world0))
            = (g_vnc_sessions world0)(0 := Some 8192)
        \<and> calls (snd (vnc_server cfg4 env_display0 None [''vnc_server'', ''abc''] world0))
            = calls world0 @ EvKmmZalloc (Some 4096) # EvKmmZalloc (Some 8192) # EvRegister 0 # rest
        \<and> length (filter (\<lambda>e. e = EvResetSession) rest) = length (passes env_display0)"
    by blast
  with entry argc lib nld displays a log show ?thesis
    by blast
qed

text \<open>
  C9. The assertion at the entry of \<^verbatim>\<open>vnc_server\<close> reads the local \<^verbatim>\<open>session\<close>
  before anything has been assigned to it. For every configuration,
  environment, argument vector and state of the globals: with assertions
  compiled in, the assertion fails and stops the daemon if the local happens
  to hold \<^verbatim>\<open>NULL\<close>, and passes if it happens to hold anything else, the daemon
  then running exactly as it does with assertions compiled out; with
  assertions compiled out it is skipped and never stops the daemon. Whether it
  fails or holds is fixed by the indeterminate value alone, on every input,
  and tells nothing about the state of the program.
\<close>

theorem vnc_server_entry_assertion:
  "vnc_server (cfg\<lparr>CONFIG_DEBUG := True\<rparr>) env None argv w = (AssertionFailed, w)
   \<and> fst (vnc_server (cfg\<lparr>CONFIG_DEBUG := True\<rparr>) env (Some p) argv w) \<noteq> AssertionFailed
   \<and> vnc_server (cfg\<lparr>CONFIG_DEBUG := True\<rparr>) env (Some p) argv w
       = vnc_server (cfg\<lparr>CONFIG_DEBUG := False\<rparr>) env session0 argv w
   \<and> fst (vnc_server (cfg\<lparr>CONFIG_DEBUG := False\<rparr>) env session0 argv w) \<noteq> AssertionFailed"
proof -
  have stops: "vnc_server (cfg\<lparr>CONFIG_DEBUG := True\<rparr>) env None argv w = (AssertionFailed, w)"
    by (simp add: vnc_server_def)
  have same: "vnc_server (cfg\<lparr>CONFIG_DEBUG := True\<rparr>) env (Some p) argv w
       = vnc_server (cfg\<lparr>CONFIG_DEBUG := False\<rparr>) env session0 argv w"
    by (simp add: vnc_server_def vnc_server_display_debug Let_def)
  have skipped: "fst (vnc_server (cfg\<lparr>CONFIG_DEBUG := False\<rparr>) env session0 argv w)
       \<noteq> AssertionFailed"
    by (simp add: vnc_server_def vnc_server_display_not_assertion Let_def)
  from stops same skipped show ?thesis
    by simp
qed

theorem vnc_server_entry_assertion_witness:
  "vnc_server (cfg4\<lparr>CONFIG_DEBUG := True\<rparr>) env_one_pass None [''vnc_server'', ''0''] world0
     = (AssertionFailed, world0)
   \<and> fst (vnc_server (cfg4\<lparr>CONFIG_DEBUG := True\<rparr>) env_one_pass (Some 7)
            [''vnc_server'', ''0''] world0) \<noteq> AssertionFailed
   \<and> calls (snd (vnc_server (cfg4\<lparr>CONFIG_DEBUG := True\<rparr>) env_one_pass (Some 7)
            [''vnc_server'', ''0''] world0)) =
      [EvKmmZalloc (Some 4096), EvKmmZalloc (Some 8192), EvRegister 0,
       EvResetSession, EvFbsemReset, EvConnect 0, EvNegotiate 0, EvStartUpdater 0,
       EvFbsemPost, EvReceiver (- 5), EvStopUpdater 0]"
proof -
  have log: "calls (snd (vnc_server (cfg4\<lparr>CONFIG_DEBUG := False\<rparr>) env_one_pass None
            [''vnc_server'', ''0''] world0)) =
      [EvKmmZalloc (Some 4096), EvKmmZalloc (Some 8192), EvRegister 0,
       EvResetSession, EvFbsemReset, EvConnect 0, EvNegotiate 0, EvStartUpdater 0,
       EvFbsemPost, EvReceiver (- 5), EvStopUpdater 0]"
    by code_simp
  from vnc_server_entry_assertion
         [where cfg = cfg4 and env = env_one_pass and p = 7 and ?session0.0 = None
            and argv = "[''vnc_server'', ''0'']" and w = world0]
       log
  show ?thesis by simp
qed

subsection \<open>Registry lookup\<close>

text \<open>
  C8, as stated: \<^verbatim>\<open>vnc_find_session\<close> would return \<^verbatim>\<open>NULL\<close> for every index out of
  range. With \<open>CONFIG_DEBUG\<close> set, the index \<open>-1\<close> fails the assertion of line
  367 and nothing is returned.
\<close>

theorem vnc_find_session_asserts:
  "fst (vnc_find_session (cfg4\<lparr>CONFIG_DEBUG := True\<rparr>) (- 1) world0) \<noteq> Inr None"
  by (simp add: vnc_find_session_def cfg4_def)

text \<open>
  C8, amended: \<^verbatim>\<open>vnc_find_session\<close> never changes the globals. For an index in
  range it returns exactly \<^verbatim>\<open>g_vnc_sessions[display]\<close>, which is \<^verbatim>\<open>NULL\<close> as long as
  no daemon has registered a session for the display. For an index that is
  negative or at least \<open>RFB_MAX_DISPLAYS\<close> it returns \<^verbatim>\<open>NULL\<close> when assertions are
  compiled out, and fails the assertion of line 367 when they are compiled in.
\<close>

theorem vnc_find_session_lookup:
  "snd (vnc_find_session cfg display w) = w
   \<and> (0 \<le> display \<and> display < RFB_MAX_DISPLAYS cfg \<longrightarrow>
        fst (vnc_find_session cfg display w) = Inr (g_vnc_sessions w (nat display)))
   \<and> ((display < 0 \<or> RFB_MAX_DISPLAYS cfg \<le> display) \<and> \<not> CONFIG_DEBUG cfg \<longrightarrow>
        fst (vnc_find_session cfg display w) = Inr None)
   \<and> ((display < 0 \<or> RFB_MAX_DISPLAYS cfg \<le> display) \<and> CONFIG_DEBUG cfg \<longrightarrow>
        fst (vnc_find_session cfg display w) = Inl DebugAssertion)"
  by (auto simp: vnc_find_session_def)

theorem vnc_find_session_lookup_witness:
  "(0::int) \<le> 3 \<and> 3 < RFB_MAX_DISPLAYS cfg4
   \<and> fst (vnc_find_session cfg4 3 (world0\<lparr>g_vnc_sessions := (\<lambda>d. None)(3 := Some 8192)\<rparr>))
       = Inr (Some 8192)
   \<and> fst (vnc_find_session cfg4 4 (world0\<lparr>g_vnc_sessions := (\<lambda>d. None)(3 := Some 8192)\<rparr>))
       = Inr None
   \<and> RFB_MAX_DISPLAYS cfg4 \<le> 100 \<and> \<not> CONFIG_DEBUG cfg4
   \<and> fst (vnc_find_session cfg4 100 (world0\<lparr>g_vnc_sessions := (\<lambda>d. None)(3 := Some 8192)\<rparr>))
       = Inr None
   \<and> CONFIG_DEBUG (cfg4\<lparr>CONFIG_DEBUG := True\<rparr>)
   \<and> fst (vnc_find_session (cfg4\<lparr>CONFIG_DEBUG := True\<rparr>) (- 1)
            (world0\<lparr>g_vnc_sessions := (\<lambda>d. None)(3 := Some 8192)\<rparr>))
       = Inl DebugAssertion"
proof -
  let ?w = "world0\<lparr>g_vnc_sessions := (\<lambda>d. None)(3 := Some 8192)\<rparr>"
  have c: "RFB_MAX_DISPLAYS cfg4 = 100" "\<not> CONFIG_DEBUG cfg4"
    "RFB_MAX_DISPLAYS (cfg4\<lparr>CONFIG_DEBUG := True\<rparr>) = 100"
    by (simp_all add: cfg4_def)
  have g: "g_vnc_sessions ?w (nat 3) = Some 8192" "g_vnc_sessions ?w (nat 4) = None"
    by (simp_all add: world0_def)
  from vnc_find_session_lookup [of cfg4 3 ?w]
       vnc_find_session_lookup [of cfg4 4 ?w]
       vnc_find_session_lookup [of cfg4 100 ?w]
       vnc_find_session_lookup [of "cfg4\<lparr>CONFIG_DEBUG := True\<rparr>" "- 1" ?w]
       c g
  show ?thesis by simp
qed

end
